theory Spec2Isabelle
  imports
    Complex_Main
    "HOL-Library.Word"
    "HOL-Library.List_Lexorder"
    "HOL-Library.Multiset"
begin

unbundle bit_operations_syntax

section \<open>PennyWise backend: data model\<close>

text \<open>
  The request handlers of \<^verbatim>\<open>main.py\<close> over an explicit store, with the library calls
  they make (\<^verbatim>\<open>hashlib\<close>, \<^verbatim>\<open>datetime\<close>, \<^verbatim>\<open>sqlite3\<close>) modelled far enough to keep every
  exception a request can cause.

  A Python string is the list of its code points, lone surrogates included, and compares
  as SQLite compares text (UTF-8 bytes, which is code-point order).  Program text such
  as messages stays a HOL string; \<open>str\<close> turns an ASCII literal into a Python string.
  A Python float is a finite value, an infinity or NaN; the sign of zero is not kept.
  Python integers are unbounded.
\<close>

type_synonym pystr = "nat list"

definition str :: "string \<Rightarrow> pystr" where
  "str s = map of_char s"

datatype pyfloat = Finite real | PosInf | NegInf | NaN

text \<open>
  The pydantic classes.  Field names carry the initial of their class, because
  \<^verbatim>\<open>Expense\<close> and \<^verbatim>\<open>Goal\<close> share \<^verbatim>\<open>description\<close> and \<^verbatim>\<open>amount\<close>, and \<^verbatim>\<open>id\<close> is a
  constant of HOL.  \<^verbatim>\<open>update_goal\<close> asks of a \<^verbatim>\<open>Goal\<close> whether its fields are there,
  so the fields of a \<^verbatim>\<open>Goal\<close> are optional here, \<open>None\<close> being Python's \<^verbatim>\<open>None\<close>;
  the class declares all three without a default, which \<open>Goal_required\<close> says.  A
  \<^verbatim>\<open>GoalInDB\<close> is a row or an answer and has all its fields.
\<close>

record UserLogin =
  l_email :: pystr
  l_password :: pystr

record UserRegister =
  r_email :: pystr
  r_password :: pystr

record Expense =
  e_description :: pystr
  e_amount :: pyfloat
  e_category :: pystr
  e_date :: pystr

record ExpenseInDB = Expense +
  e_id :: int

record Goal =
  g_description :: "pystr option"
  g_amount :: "pyfloat option"
  g_progress :: "pyfloat option"

definition Goal_required :: "Goal \<Rightarrow> bool" where
  "Goal_required goal =
     (g_description goal \<noteq> None \<and> g_amount goal \<noteq> None \<and> g_progress goal \<noteq> None)"

record GoalInDB =
  gd_description :: pystr
  gd_amount :: pyfloat
  gd_progress :: pyfloat
  gd_id :: int

text \<open>
  \<^verbatim>\<open>HTTPException(status_code, detail)\<close>, and the exceptions of the libraries that no
  handler catches (the framework answers those with status 500).
\<close>

datatype error =
    HTTPException (status_code: int) (detail: string)
  | IntegrityError
  | OverflowError
  | UnicodeEncodeError
  | OperationalError

text \<open>The decoded identity token is a dictionary of claims.\<close>

type_synonym decoded_token = "(string \<times> string) list"

datatype response =
    Message string
  | ProtectedMessage string decoded_token
  | ExpenseOut ExpenseInDB
  | ExpenseList "ExpenseInDB list"
  | GraphData "(pystr \<times> pyfloat) list"
  | GoalOut GoalInDB
  | GoalList "GoalInDB list"

section \<open>Strings and floats of Python\<close>

definition surrogate :: "nat \<Rightarrow> bool" where
  "surrogate c = (55296 \<le> c \<and> c \<le> 57343)"

definition utf8 :: "nat \<Rightarrow> nat list" where
  "utf8 c =
     (if c < 128 then [c]
      else if c < 2048 then [192 + c div 64, 128 + c mod 64]
      else if c < 65536 then [224 + c div 4096, 128 + c div 64 mod 64, 128 + c mod 64]
      else [240 + c div 262144, 128 + c div 4096 mod 64, 128 + c div 64 mod 64,
            128 + c mod 64])"

definition encode :: "pystr \<Rightarrow> error + nat list" where
  \<comment> \<open>\<^verbatim>\<open>str.encode()\<close>: UTF-8, which has no encoding for a surrogate\<close>
  "encode s = (if list_ex surrogate s then Inl UnicodeEncodeError else Inr (concat (map utf8 s)))"

text \<open>
  Addition of doubles: the exact sum rounded to the nearest double, ties to the even
  significand, with overflow to an infinity and gradual underflow.  \<open>binary_exponent x\<close>
  is the \<open>e\<close> with \<open>2 ^ e \<le> x < 2 ^ (e + 1)\<close> as far as doubles need it; a double has 52
  fraction bits, so its last place is worth \<open>2 ^ (e - 52)\<close>.
\<close>

fun exponent_up :: "nat \<Rightarrow> real \<Rightarrow> int \<Rightarrow> int" where
  "exponent_up 0 x e = e"
| "exponent_up (Suc n) x e = (if 2 \<le> x then exponent_up n (x / 2) (e + 1) else e)"

fun exponent_down :: "nat \<Rightarrow> real \<Rightarrow> int \<Rightarrow> int" where
  "exponent_down 0 x e = e"
| "exponent_down (Suc n) x e = (if x < 1 then exponent_down n (2 * x) (e - 1) else e)"

definition binary_exponent :: "real \<Rightarrow> int" where
  "binary_exponent x = (if 1 \<le> x then exponent_up 1100 x 0 else exponent_down 1100 x 0)"

definition round_half_even :: "real \<Rightarrow> int" where
  "round_half_even y =
     (let f = \<lfloor>y\<rfloor>; r = y - of_int f
      in if r < 1 / 2 then f else if 1 / 2 < r then f + 1 else if even f then f else f + 1)"

definition scale_to_ulp :: "int \<Rightarrow> real \<Rightarrow> real" where
  \<comment> \<open>\<open>x / 2 ^ (e - 52)\<close>, for a positive or negative power\<close>
  "scale_to_ulp e x = (if 52 \<le> e then x / 2 ^ nat (e - 52) else x * 2 ^ nat (52 - e))"

definition scale_from_ulp :: "int \<Rightarrow> int \<Rightarrow> real" where
  "scale_from_ulp e n =
     (if 52 \<le> e then of_int n * 2 ^ nat (e - 52) else of_int n / 2 ^ nat (52 - e))"

definition round_double :: "real \<Rightarrow> pyfloat" where
  "round_double x =
     (if x = 0 then Finite 0
      else
        let e = max (binary_exponent \<bar>x\<bar>) (- 1022);
            r = scale_from_ulp e (round_half_even (scale_to_ulp e x))
        in if 2 ^ 1024 \<le> r then PosInf else if r \<le> - (2 ^ 1024) then NegInf else Finite r)"

fun fadd :: "pyfloat \<Rightarrow> pyfloat \<Rightarrow> pyfloat" where
  "fadd NaN y = NaN"
| "fadd x NaN = NaN"
| "fadd PosInf NegInf = NaN"
| "fadd NegInf PosInf = NaN"
| "fadd PosInf y = PosInf"
| "fadd x PosInf = PosInf"
| "fadd NegInf y = NegInf"
| "fadd x NegInf = NegInf"
| "fadd (Finite a) (Finite b) = round_double (a + b)"

section \<open>Password hashing\<close>

text \<open>
  \<^verbatim>\<open>hashlib.sha256(password.encode()).hexdigest()\<close>: SHA-256 as FIPS 180-4 defines it,
  on 32-bit words, rendered as 64 lower-case hexadecimal digits.
\<close>

type_synonym w32 = "32 word"

text \<open>
  The constants are the first 32 bits of the fractional parts of the cube roots (round
  constants) and square roots (initial hash value) of the first primes.  The integer
  root is built bit by bit from the top; the conversion to a word drops the integer part.
\<close>

definition iroot :: "nat \<Rightarrow> nat \<Rightarrow> nat" where
  \<comment> \<open>the largest \<open>r < 2 ^ 40\<close> with \<open>r ^ k \<le> x\<close>\<close>
  "iroot k x = foldl (\<lambda>r i. if (r + 2 ^ i) ^ k \<le> x then r + 2 ^ i else r) 0 (rev [0..<40])"

definition frac_sqrt :: "nat \<Rightarrow> w32" where
  "frac_sqrt p = of_nat (iroot 2 (p * 2 ^ 64))"

definition frac_cbrt :: "nat \<Rightarrow> w32" where
  "frac_cbrt p = of_nat (iroot 3 (p * 2 ^ 96))"

definition primes64 :: "nat list" where
  \<comment> \<open>the first 64 primes\<close>
  "primes64 =
     [2, 3, 5, 7, 11, 13, 17, 19, 23, 29, 31, 37, 41, 43, 47, 53,
      59, 61, 67, 71, 73, 79, 83, 89, 97, 101, 103, 107, 109, 113, 127, 131,
      137, 139, 149, 151, 157, 163, 167, 173, 179, 181, 191, 193, 197, 199, 211, 223,
      227, 229, 233, 239, 241, 251, 257, 263, 269, 271, 277, 281, 283, 293, 307, 311]"

definition K256 :: "w32 list" where
  "K256 = map frac_cbrt primes64"

type_synonym sha_state = "w32 \<times> w32 \<times> w32 \<times> w32 \<times> w32 \<times> w32 \<times> w32 \<times> w32"

definition H256 :: sha_state where
  "H256 = (frac_sqrt 2, frac_sqrt 3, frac_sqrt 5, frac_sqrt 7,
           frac_sqrt 11, frac_sqrt 13, frac_sqrt 17, frac_sqrt 19)"

definition rotr :: "nat \<Rightarrow> w32 \<Rightarrow> w32" where
  "rotr n x = drop_bit n x OR push_bit (32 - n) x"

definition Ch :: "w32 \<Rightarrow> w32 \<Rightarrow> w32 \<Rightarrow> w32" where
  "Ch x y z = (x AND y) XOR (NOT x AND z)"

definition Maj :: "w32 \<Rightarrow> w32 \<Rightarrow> w32 \<Rightarrow> w32" where
  "Maj x y z = (x AND y) XOR (x AND z) XOR (y AND z)"

definition Sigma0 :: "w32 \<Rightarrow> w32" where
  "Sigma0 x = rotr 2 x XOR rotr 13 x XOR rotr 22 x"

definition Sigma1 :: "w32 \<Rightarrow> w32" where
  "Sigma1 x = rotr 6 x XOR rotr 11 x XOR rotr 25 x"

definition sigma0 :: "w32 \<Rightarrow> w32" where
  "sigma0 x = rotr 7 x XOR rotr 18 x XOR drop_bit 3 x"

definition sigma1 :: "w32 \<Rightarrow> w32" where
  "sigma1 x = rotr 17 x XOR rotr 19 x XOR drop_bit 10 x"

definition sha_pad :: "nat list \<Rightarrow> nat list" where
  "sha_pad m =
     m @ [128] @ replicate ((119 - length m mod 64) mod 64) 0
       @ map (\<lambda>i. ((8 * length m) mod 2 ^ 64) div 2 ^ (8 * i) mod 256) [7, 6, 5, 4, 3, 2, 1, 0]"

fun sha_blocks :: "nat \<Rightarrow> nat list \<Rightarrow> nat list list" where
  "sha_blocks 0 bs = []"
| "sha_blocks (Suc n) bs = take 64 bs # sha_blocks n (drop 64 bs)"

definition be32 :: "nat list \<Rightarrow> w32" where
  "be32 bs = foldl (\<lambda>acc b. push_bit 8 acc OR of_nat b) 0 bs"

definition block_words :: "nat list \<Rightarrow> w32 list" where
  "block_words b = map (\<lambda>j. be32 (take 4 (drop (4 * j) b))) [0..<16]"

fun schedule :: "nat \<Rightarrow> w32 list \<Rightarrow> w32 list" where
  "schedule 0 w = w"
| "schedule (Suc n) w =
     schedule n (w @ [sigma1 (w ! (length w - 2)) + w ! (length w - 7)
                      + sigma0 (w ! (length w - 15)) + w ! (length w - 16)])"

definition sha_round :: "sha_state \<Rightarrow> w32 \<times> w32 \<Rightarrow> sha_state" where
  "sha_round s kw =
     (case s of (a, b, c, d, e, f, g, h) \<Rightarrow>
      case kw of (k, w) \<Rightarrow>
        let t1 = h + Sigma1 e + Ch e f g + k + w;
            t2 = Sigma0 a + Maj a b c
        in (t1 + t2, a, b, c, d + t1, e, f, g))"

definition sha_add :: "sha_state \<Rightarrow> sha_state \<Rightarrow> sha_state" where
  "sha_add s t =
     (case s of (a, b, c, d, e, f, g, h) \<Rightarrow>
      case t of (a', b', c', d', e', f', g', h') \<Rightarrow>
        (a + a', b + b', c + c', d + d', e + e', f + f', g + g', h + h'))"

definition sha_compress :: "sha_state \<Rightarrow> nat list \<Rightarrow> sha_state" where
  "sha_compress st b =
     sha_add st (foldl sha_round st (zip K256 (schedule 48 (block_words b))))"

definition hex_digit :: "nat \<Rightarrow> char" where
  "hex_digit n = ''0123456789abcdef'' ! (n mod 16)"

definition hex32 :: "w32 \<Rightarrow> string" where
  "hex32 w = map (\<lambda>i. hex_digit (unat (drop_bit (4 * i) w))) [7, 6, 5, 4, 3, 2, 1, 0]"

definition hexdigest :: "sha_state \<Rightarrow> string" where
  "hexdigest s =
     (case s of (a, b, c, d, e, f, g, h) \<Rightarrow> concat (map hex32 [a, b, c, d, e, f, g, h]))"

definition sha256 :: "nat list \<Rightarrow> sha_state" where
  "sha256 m = (let p = sha_pad m in foldl sha_compress H256 (sha_blocks (length p div 64) p))"

definition hash_password :: "pystr \<Rightarrow> error + pystr" where
  "hash_password password =
     (case encode password of
        Inl e \<Rightarrow> Inl e
      | Inr bytes \<Rightarrow> Inr (str (hexdigest (sha256 bytes))))"

section \<open>Date validation\<close>

text \<open>
  \<^verbatim>\<open>datetime.datetime.strptime(s, "%Y-%m-%d").date()\<close>.  The library turns the format
  into the regular expression
  \<^verbatim>\<open>(\d\d\d\d)-(1[0-2]|0[1-9]|[1-9])-(3[0-1]|[1-2]\d|0[1-9]|[1-9]| [1-9])\<close>, matches
  it at the start of the string, fails when text remains after the match, and builds a
  \<^verbatim>\<open>date\<close>, which fails for year 0 and for a day the month does not have.  Each
  directive is a function from the text to the matches it allows, in the order in
  which the regular expression tries them; each match is a value and the remaining text.

  \<^verbatim>\<open>\d\<close> matches every decimal digit of Unicode, and \<^verbatim>\<open>int\<close> reads them; the classes
  written with a range match ASCII only.  The decimal digits come in runs of ten;
  \<open>nd_zeros\<close> lists the zero of each run (Unicode 14, which Python 3.11 carries).
\<close>

definition nd_zeros :: "nat list" where
  "nd_zeros =
     [48, 1632, 1776, 1984, 2406, 2534, 2662, 2790, 2918, 3046, 3174, 3302, 3430, 3558,
      3664, 3792, 3872, 4160, 4240, 6112, 6160, 6470, 6608, 6784, 6800, 6992, 7088, 7232,
      7248, 42528, 43216, 43264, 43472, 43504, 43600, 44016, 65296, 66720, 68912, 69734,
      69872, 69942, 70096, 70384, 70736, 70864, 71248, 71360, 71472, 71904, 72016, 72784,
      73040, 73120, 92768, 92864, 93008, 120782, 120792, 120802, 120812, 120822, 123200,
      123632, 125264, 130032]"

definition decimal :: "nat \<Rightarrow> nat option" where
  "decimal c =
     (case find (\<lambda>z. z \<le> c \<and> c < z + 10) nd_zeros of
        Some z \<Rightarrow> Some (c - z)
      | None \<Rightarrow> None)"

datatype date = Date (year: nat) (month: nat) (day: nat)

definition re_Y :: "pystr \<Rightarrow> (nat \<times> pystr) list" where
  "re_Y s =
     (case s of
        a # b # c # d # rest \<Rightarrow>
          (case (decimal a, decimal b, decimal c, decimal d) of
             (Some p, Some q, Some r, Some t) \<Rightarrow> [(1000 * p + 100 * q + 10 * r + t, rest)]
           | _ \<Rightarrow> [])
      | _ \<Rightarrow> [])"

definition re_two :: "pystr \<Rightarrow> pystr \<Rightarrow> pystr \<Rightarrow> (nat \<times> pystr) list" where
  \<comment> \<open>two ASCII digits, the first from \<open>as\<close> and the second from \<open>bs\<close>\<close>
  "re_two as bs s =
     (case s of
        a # b # rest \<Rightarrow>
          if a \<in> set as \<and> b \<in> set bs then [(10 * (a - 48) + (b - 48), rest)] else []
      | _ \<Rightarrow> [])"

definition re_two_d :: "pystr \<Rightarrow> pystr \<Rightarrow> (nat \<times> pystr) list" where
  \<comment> \<open>an ASCII digit from \<open>as\<close>, then \<^verbatim>\<open>\d\<close>\<close>
  "re_two_d as s =
     (case s of
        a # b # rest \<Rightarrow>
          (case decimal b of
             Some v \<Rightarrow> if a \<in> set as then [(10 * (a - 48) + v, rest)] else []
           | None \<Rightarrow> [])
      | _ \<Rightarrow> [])"

definition re_one :: "pystr \<Rightarrow> pystr \<Rightarrow> (nat \<times> pystr) list" where
  "re_one as s =
     (case s of a # rest \<Rightarrow> if a \<in> set as then [(a - 48, rest)] else [] | _ \<Rightarrow> [])"

definition re_lit :: "nat \<Rightarrow> pystr \<Rightarrow> pystr list" where
  "re_lit c s = (case s of a # rest \<Rightarrow> if a = c then [rest] else [] | _ \<Rightarrow> [])"

definition re_m :: "pystr \<Rightarrow> (nat \<times> pystr) list" where
  "re_m s =
     re_two (str ''1'') (str ''012'') s @ re_two (str ''0'') (str ''123456789'') s
       @ re_one (str ''123456789'') s"

definition re_d :: "pystr \<Rightarrow> (nat \<times> pystr) list" where
  "re_d s =
     re_two (str ''3'') (str ''01'') s @ re_two_d (str ''12'') s
       @ re_two (str ''0'') (str ''123456789'') s @ re_one (str ''123456789'') s
       @ concat (map (re_one (str ''123456789'')) (re_lit 32 s))"

definition re_match :: "pystr \<Rightarrow> (nat \<times> nat \<times> nat \<times> pystr) list" where
  \<comment> \<open>45 is the hyphen\<close>
  "re_match s =
     [(y, m, d, r5). (y, r1) \<leftarrow> re_Y s, r2 \<leftarrow> re_lit 45 r1, (m, r3) \<leftarrow> re_m r2,
                     r4 \<leftarrow> re_lit 45 r3, (d, r5) \<leftarrow> re_d r4]"

definition is_leap :: "nat \<Rightarrow> bool" where
  "is_leap y = (if y mod 100 = 0 then y mod 400 = 0 else y mod 4 = 0)"

definition days_in_month :: "nat \<Rightarrow> nat \<Rightarrow> nat" where
  "days_in_month y m =
     (if m = 2 then (if is_leap y then 29 else 28)
      else if m \<in> {4, 6, 9, 11} then 30 else 31)"

definition datetime_date :: "nat \<Rightarrow> nat \<Rightarrow> nat \<Rightarrow> date option" where
  \<comment> \<open>\<^verbatim>\<open>datetime.date(y, m, d)\<close>; \<open>None\<close> is its \<^verbatim>\<open>ValueError\<close>\<close>
  "datetime_date y m d =
     (if 1 \<le> y \<and> y \<le> 9999 \<and> 1 \<le> m \<and> m \<le> 12 \<and> 1 \<le> d \<and> d \<le> days_in_month y m
      then Some (Date y m d) else None)"

definition strptime :: "pystr \<Rightarrow> date option" where
  \<comment> \<open>with the format \<^verbatim>\<open>"%Y-%m-%d"\<close>; \<open>None\<close> is \<^verbatim>\<open>ValueError\<close>\<close>
  "strptime s =
     (case re_match s of
        [] \<Rightarrow> None
      | (y, m, d, rest) # _ \<Rightarrow> if rest \<noteq> [] then None else datetime_date y m d)"

definition digit_char :: "nat \<Rightarrow> char" where
  "digit_char n = ''0123456789'' ! (n mod 10)"

function str_nat :: "nat \<Rightarrow> string" where
  "str_nat n =
     (if n < 10 then [digit_char n] else str_nat (n div 10) @ [digit_char (n mod 10)])"
  by pat_completeness auto
termination
  by (relation "measure (\<lambda>n. n)") auto

declare str_nat.simps [simp del]

definition str_int :: "int \<Rightarrow> string" where
  \<comment> \<open>\<^verbatim>\<open>str(i)\<close>, as an f-string formats an integer\<close>
  "str_int i = (if i < 0 then CHR ''-'' # str_nat (nat (- i)) else str_nat (nat i))"

definition zfill :: "nat \<Rightarrow> string \<Rightarrow> string" where
  "zfill w s = replicate (w - length s) CHR ''0'' @ s"

definition isoformat :: "date \<Rightarrow> string" where
  \<comment> \<open>\<^verbatim>\<open>date.isoformat()\<close>, the text the \<^verbatim>\<open>sqlite3\<close> module binds for a \<^verbatim>\<open>date\<close>\<close>
  "isoformat dt =
     zfill 4 (str_nat (year dt)) @ ''-'' @ zfill 2 (str_nat (month dt)) @ ''-''
       @ zfill 2 (str_nat (day dt))"

section \<open>The store and the statements run on it\<close>

text \<open>
  The three tables of \<^verbatim>\<open>init_db\<close>.  \<^verbatim>\<open>users\<close> has the email as primary key, so
  it is a map from email to stored password.  \<^verbatim>\<open>expenses\<close> and \<^verbatim>\<open>goals\<close> are
  lists of rows in the order a table scan yields them (ascending rowid), each with the
  counter \<^verbatim>\<open>AUTOINCREMENT\<close> keeps in \<^verbatim>\<open>sqlite_sequence\<close>.
\<close>

record store =
  users :: "pystr \<rightharpoonup> pystr"
  expenses :: "ExpenseInDB list"
  expenses_seq :: int
  goals :: "GoalInDB list"
  goals_seq :: int

definition init_db :: store where
  "init_db = \<lparr>users = Map.empty, expenses = [], expenses_seq = 0, goals = [], goals_seq = 0\<rparr>"

text \<open>
  What \<^verbatim>\<open>cursor.execute\<close> does with the parameters of a statement.  Text with a lone
  surrogate cannot be bound (\<^verbatim>\<open>UnicodeEncodeError\<close>); an integer outside the signed
  64-bit range cannot be bound (\<^verbatim>\<open>OverflowError\<close>); a NaN is bound as \<^verbatim>\<open>NULL\<close>, as is
  \<^verbatim>\<open>None\<close>, and every column here is \<^verbatim>\<open>NOT NULL\<close> (\<^verbatim>\<open>IntegrityError\<close> when the
  statement runs, after all parameters are bound).  A failed statement changes nothing.
\<close>

definition text_ok :: "pystr \<Rightarrow> bool" where
  "text_ok s = (\<not> list_ex surrogate s)"

definition int64 :: "int \<Rightarrow> bool" where
  "int64 i = (- (2 ^ 63) \<le> i \<and> i < 2 ^ 63)"

definition lastrowid :: "int list \<Rightarrow> int \<Rightarrow> int" where
  \<comment> \<open>the rowid \<^verbatim>\<open>AUTOINCREMENT\<close> assigns: one more than the largest rowid the table
      holds or has ever held\<close>
  "lastrowid ids seq = fold max ids seq + 1"

definition insert_user :: "pystr \<Rightarrow> pystr \<Rightarrow> store \<Rightarrow> error + store" where
  \<comment> \<open>\<^verbatim>\<open>INSERT INTO users (email, password) VALUES (?, ?)\<close>\<close>
  "insert_user email password st =
     (if \<not> text_ok email \<or> \<not> text_ok password then Inl UnicodeEncodeError
      else if users st email \<noteq> None then Inl IntegrityError
      else Inr (st\<lparr>users := (users st)(email \<mapsto> password)\<rparr>))"

definition select_password :: "pystr \<Rightarrow> store \<Rightarrow> error + pystr option" where
  \<comment> \<open>\<^verbatim>\<open>SELECT password FROM users WHERE email = ?\<close> and \<^verbatim>\<open>fetchone\<close>\<close>
  "select_password email st =
     (if \<not> text_ok email then Inl UnicodeEncodeError else Inr (users st email))"

definition insert_expense ::
  "pystr \<Rightarrow> pyfloat \<Rightarrow> pystr \<Rightarrow> date \<Rightarrow> store \<Rightarrow> error + int \<times> store" where
  \<comment> \<open>\<^verbatim>\<open>INSERT INTO expenses (description, amount, category, date) VALUES (?, ?, ?, ?)\<close>
      and \<^verbatim>\<open>lastrowid\<close>; the date is bound as its ISO text\<close>
  "insert_expense description amount category formatted_date st =
     (let expense_id = lastrowid (map e_id (expenses st)) (expenses_seq st) in
      if \<not> text_ok description \<or> \<not> text_ok category then Inl UnicodeEncodeError
      else if amount = NaN then Inl IntegrityError
      else if \<not> int64 expense_id then Inl OperationalError
      else Inr (expense_id,
                st\<lparr>expenses := expenses st
                        @ [\<lparr>e_description = description, e_amount = amount,
                            e_category = category, e_date = str (isoformat formatted_date),
                            e_id = expense_id\<rparr>],
                   expenses_seq := expense_id\<rparr>))"

definition delete_expense_row :: "int \<Rightarrow> store \<Rightarrow> error + store" where
  \<comment> \<open>\<^verbatim>\<open>DELETE FROM expenses WHERE id = ?\<close>\<close>
  "delete_expense_row expense_id st =
     (if \<not> int64 expense_id then Inl OverflowError
      else Inr (st\<lparr>expenses := filter (\<lambda>row. e_id row \<noteq> expense_id) (expenses st)\<rparr>))"

definition insert_goal ::
  "pystr option \<Rightarrow> pyfloat option \<Rightarrow> pyfloat option \<Rightarrow> store \<Rightarrow> error + int \<times> store" where
  \<comment> \<open>\<^verbatim>\<open>INSERT INTO goals (description, amount, progress) VALUES (?, ?, ?)\<close> and
      \<^verbatim>\<open>lastrowid\<close>\<close>
  "insert_goal description amount progress st =
     (let goal_id = lastrowid (map gd_id (goals st)) (goals_seq st) in
      case (description, amount, progress) of
        (Some d, Some a, Some p) \<Rightarrow>
          if \<not> text_ok d then Inl UnicodeEncodeError
          else if a = NaN \<or> p = NaN then Inl IntegrityError
          else if \<not> int64 goal_id then Inl OperationalError
          else Inr (goal_id,
                    st\<lparr>goals := goals st
                            @ [\<lparr>gd_description = d, gd_amount = a, gd_progress = p,
                                gd_id = goal_id\<rparr>],
                       goals_seq := goal_id\<rparr>)
      | (Some d, _, _) \<Rightarrow> if \<not> text_ok d then Inl UnicodeEncodeError else Inl IntegrityError
      | _ \<Rightarrow> Inl IntegrityError)"

definition select_goal :: "int \<Rightarrow> store \<Rightarrow> error + GoalInDB option" where
  \<comment> \<open>\<^verbatim>\<open>SELECT * FROM goals WHERE id = ?\<close> and \<^verbatim>\<open>fetchone\<close>\<close>
  "select_goal goal_id st =
     (if \<not> int64 goal_id then Inl OverflowError
      else Inr (find (\<lambda>row. gd_id row = goal_id) (goals st)))"

definition update_goal_row ::
  "pystr \<Rightarrow> pyfloat \<Rightarrow> pyfloat \<Rightarrow> int \<Rightarrow> store \<Rightarrow> error + store" where
  \<comment> \<open>\<^verbatim>\<open>UPDATE goals SET description = ?, amount = ?, progress = ? WHERE id = ?\<close>\<close>
  "update_goal_row description amount progress goal_id st =
     (if \<not> text_ok description then Inl UnicodeEncodeError
      else if \<not> int64 goal_id then Inl OverflowError
      else if amount = NaN \<or> progress = NaN then Inl IntegrityError
      else Inr (st\<lparr>goals :=
                  map (\<lambda>row. if gd_id row = goal_id
                              then \<lparr>gd_description = description, gd_amount = amount,
                                    gd_progress = progress, gd_id = goal_id\<rparr>
                              else row)
                    (goals st)\<rparr>))"

definition delete_goal_row :: "int \<Rightarrow> store \<Rightarrow> error + nat \<times> store" where
  \<comment> \<open>\<^verbatim>\<open>DELETE FROM goals WHERE id = ?\<close> and \<^verbatim>\<open>rowcount\<close>\<close>
  "delete_goal_row goal_id st =
     (if \<not> int64 goal_id then Inl OverflowError
      else Inr (length (filter (\<lambda>row. gd_id row = goal_id) (goals st)),
                st\<lparr>goals := filter (\<lambda>row. gd_id row \<noteq> goal_id) (goals st)\<rparr>))"

text \<open>
  \<^verbatim>\<open>SELECT ... FROM expenses ORDER BY date ASC\<close> names no second key, and SQLite leaves
  the order of rows with equal keys undefined.  The engine's answer is therefore a
  parameter \<open>order_by\<close> of the handlers that sort, of which \<open>orders_by_date\<close> says what
  the statement promises and \<open>keeps_scan_order\<close> what SQLite's sorter has been seen to
  do on top of it.
\<close>

type_synonym sorter = "ExpenseInDB list \<Rightarrow> ExpenseInDB list"

definition orders_by_date :: "sorter \<Rightarrow> bool" where
  "orders_by_date order_by =
     (\<forall>rows. mset (order_by rows) = mset rows \<and> sorted (map e_date (order_by rows)))"

definition keeps_scan_order :: "sorter \<Rightarrow> bool" where
  "keeps_scan_order order_by =
     (\<forall>rows d. filter (\<lambda>row. e_date row = d) (order_by rows)
                = filter (\<lambda>row. e_date row = d) rows)"

type_synonym result = "(error + response) \<times> store"

section \<open>Request handlers\<close>

text \<open>
  Each handler returns its answer, or the exception it ends with, and the store it
  leaves.  An answer is the value the handler returns, before it is written as JSON.
\<close>

definition root :: "store \<Rightarrow> result" where
  "root st = (Inr (Message ''Welcome to PennyWise API''), st)"

definition verify_token :: "(string \<Rightarrow> decoded_token option) \<Rightarrow> string \<Rightarrow> error + decoded_token" where
  \<comment> \<open>\<open>verify_id_token\<close> is the identity provider's \<^verbatim>\<open>auth.verify_id_token\<close>;
      it answers \<open>None\<close> where the provider raises\<close>
  "verify_token verify_id_token token =
     (case verify_id_token token of
        Some decoded_token \<Rightarrow> Inr decoded_token
      | None \<Rightarrow> Inl (HTTPException 401 ''Invalid or expired token''))"

definition protected_route :: "decoded_token \<Rightarrow> store \<Rightarrow> result" where
  "protected_route user st = (Inr (ProtectedMessage ''Welcome to a protected route!'' user), st)"

definition register_user :: "UserRegister \<Rightarrow> store \<Rightarrow> result" where
  "register_user user st =
     (case hash_password (r_password user) of
        Inl e \<Rightarrow> (Inl e, st)
      | Inr hashed_password \<Rightarrow>
          (case insert_user (r_email user) hashed_password st of
             Inl IntegrityError \<Rightarrow> (Inl (HTTPException 400 ''Email already registered''), st)
           | Inl e \<Rightarrow> (Inl e, st)
           | Inr st' \<Rightarrow> (Inr (Message ''User registered successfully''), st')))"

definition login_user :: "UserLogin \<Rightarrow> store \<Rightarrow> result" where
  \<comment> \<open>\<^verbatim>\<open>record and ...\<close> hashes the password only when a record was found\<close>
  "login_user user st =
     (case select_password (l_email user) st of
        Inl e \<Rightarrow> (Inl e, st)
      | Inr None \<Rightarrow> (Inl (HTTPException 401 ''Invalid credentials''), st)
      | Inr (Some record_password) \<Rightarrow>
          (case hash_password (l_password user) of
             Inl e \<Rightarrow> (Inl e, st)
           | Inr hashed_password \<Rightarrow>
               if record_password = hashed_password
               then (Inr (Message ''Login successful''), st)
               else (Inl (HTTPException 401 ''Invalid credentials''), st)))"

definition add_expense :: "Expense \<Rightarrow> decoded_token \<Rightarrow> store \<Rightarrow> result" where
  "add_expense expense user st =
     (case strptime (e_date expense) of
        None \<Rightarrow> (Inl (HTTPException 400 ''Invalid date format. Use YYYY-MM-DD''), st)
      | Some formatted_date \<Rightarrow>
          (case insert_expense (e_description expense) (e_amount expense)
                  (e_category expense) formatted_date st of
             Inl e \<Rightarrow> (Inl e, st)
           | Inr (expense_id, st') \<Rightarrow>
               (Inr (ExpenseOut \<lparr>e_description = e_description expense,
                                    e_amount = e_amount expense,
                                    e_category = e_category expense,
                                    e_date = e_date expense, e_id = expense_id\<rparr>),
                st')))"

definition get_expenses :: "sorter \<Rightarrow> decoded_token \<Rightarrow> store \<Rightarrow> result" where
  "get_expenses order_by user st = (Inr (ExpenseList (order_by (expenses st))), st)"

definition delete_expense :: "int \<Rightarrow> decoded_token \<Rightarrow> store \<Rightarrow> result" where
  "delete_expense expense_id user st =
     (case delete_expense_row expense_id st of
        Inl e \<Rightarrow> (Inl e, st)
      | Inr st' \<Rightarrow>
          (Inr (Message (''Expense '' @ str_int expense_id @ '' deleted successfully'')), st'))"

fun defaultdict_add ::
  "(pystr \<times> pyfloat) list \<Rightarrow> pystr \<Rightarrow> pyfloat \<Rightarrow> (pystr \<times> pyfloat) list" where
  \<comment> \<open>\<^verbatim>\<open>d[k] += v\<close> on a \<^verbatim>\<open>defaultdict(float)\<close>, which keeps its keys in the order of
      their first use\<close>
  "defaultdict_add [] k v = [(k, fadd (Finite 0) v)]"
| "defaultdict_add ((k', t) # kvs) k v =
     (if k' = k then (k', fadd t v) # kvs else (k', t) # defaultdict_add kvs k v)"

definition get_expenses_graph :: "sorter \<Rightarrow> decoded_token \<Rightarrow> store \<Rightarrow> result" where
  "get_expenses_graph order_by user st =
     (let expenses = map (\<lambda>row. (e_date row, e_amount row)) (order_by (expenses st));
          expense_data = fold (\<lambda>expense d. defaultdict_add d (fst expense) (snd expense)) expenses []
      in (Inr (GraphData expense_data), st))"

definition create_goal :: "Goal \<Rightarrow> decoded_token \<Rightarrow> store \<Rightarrow> result" where
  \<comment> \<open>the last case is not reached: the insert fails when a field is missing\<close>
  "create_goal goal user st =
     (case insert_goal (g_description goal) (g_amount goal) (g_progress goal) st of
        Inl e \<Rightarrow> (Inl e, st)
      | Inr (goal_id, st') \<Rightarrow>
          (case (g_description goal, g_amount goal, g_progress goal) of
             (Some d, Some a, Some p) \<Rightarrow>
               (Inr (GoalOut \<lparr>gd_description = d, gd_amount = a, gd_progress = p,
                               gd_id = goal_id\<rparr>),
                st')
           | _ \<Rightarrow> (Inl IntegrityError, st)))"

definition get_goals :: "decoded_token \<Rightarrow> store \<Rightarrow> result" where
  "get_goals user st = (Inr (GoalList (goals st)), st)"

definition update_goal :: "int \<Rightarrow> Goal \<Rightarrow> decoded_token \<Rightarrow> store \<Rightarrow> result" where
  \<comment> \<open>a description is truthy when it is there and not empty, an amount when it is there
      and not zero (NaN is truthy); the progress is only asked whether it is there\<close>
  "update_goal goal_id goal user st =
     (case select_goal goal_id st of
        Inl e \<Rightarrow> (Inl e, st)
      | Inr None \<Rightarrow> (Inl (HTTPException 404 ''Goal not found''), st)
      | Inr (Some existing_goal) \<Rightarrow>
          let updated_description =
                (case g_description goal of
                   Some d \<Rightarrow> if d \<noteq> [] then d else gd_description existing_goal
                 | None \<Rightarrow> gd_description existing_goal);
              updated_amount =
                (case g_amount goal of
                   Some a \<Rightarrow> if a \<noteq> Finite 0 then a else gd_amount existing_goal
                 | None \<Rightarrow> gd_amount existing_goal);
              updated_progress =
                (case g_progress goal of
                   Some p \<Rightarrow> p
                 | None \<Rightarrow> gd_progress existing_goal)
          in case update_goal_row updated_description updated_amount updated_progress
                    goal_id st of
               Inl e \<Rightarrow> (Inl e, st)
             | Inr st' \<Rightarrow>
                 (Inr (GoalOut \<lparr>gd_description = updated_description,
                                 gd_amount = updated_amount,
                                 gd_progress = updated_progress, gd_id = goal_id\<rparr>),
                  st'))"

definition delete_goal :: "int \<Rightarrow> decoded_token \<Rightarrow> store \<Rightarrow> result" where
  "delete_goal goal_id user st =
     (case delete_goal_row goal_id st of
        Inl e \<Rightarrow> (Inl e, st)
      | Inr (rowcount, st') \<Rightarrow>
          if rowcount = 0 then (Inl (HTTPException 404 ''Goal not found''), st)
          else (Inr (Message ''Goal deleted successfully''), st'))"

section \<open>Requests\<close>

text \<open>
  The routes that carry \<^verbatim>\<open>Depends(verify_token)\<close>, and the three that do not.  FastAPI
  calls the dependency first, with the token the request supplies, and stops at its
  exception; then it calls the handler, with the body as its pydantic class read it.
\<close>

datatype operation =
    ProtectedRoute
  | AddExpense Expense
  | GetExpenses
  | DeleteExpense int
  | GetExpensesGraph
  | CreateGoal Goal
  | GetGoals
  | UpdateGoal int Goal
  | DeleteGoal int

datatype request =
    Root
  | Register UserRegister
  | Login UserLogin
  | Gated string operation

fun run_operation :: "sorter \<Rightarrow> operation \<Rightarrow> decoded_token \<Rightarrow> store \<Rightarrow> result" where
  "run_operation order_by ProtectedRoute user st = protected_route user st"
| "run_operation order_by (AddExpense expense) user st = add_expense expense user st"
| "run_operation order_by GetExpenses user st = get_expenses order_by user st"
| "run_operation order_by (DeleteExpense expense_id) user st = delete_expense expense_id user st"
| "run_operation order_by GetExpensesGraph user st = get_expenses_graph order_by user st"
| "run_operation order_by (CreateGoal goal) user st = create_goal goal user st"
| "run_operation order_by GetGoals user st = get_goals user st"
| "run_operation order_by (UpdateGoal goal_id goal) user st = update_goal goal_id goal user st"
| "run_operation order_by (DeleteGoal goal_id) user st = delete_goal goal_id user st"

fun handle ::
  "(string \<Rightarrow> decoded_token option) \<Rightarrow> sorter \<Rightarrow> request \<Rightarrow> store \<Rightarrow> result" where
  "handle verify_id_token order_by Root st = root st"
| "handle verify_id_token order_by (Register user) st = register_user user st"
| "handle verify_id_token order_by (Login user) st = login_user user st"
| "handle verify_id_token order_by (Gated token op) st =
     (case verify_token verify_id_token token of
        Inl e \<Rightarrow> (Inl e, st)
      | Inr user \<Rightarrow> run_operation order_by op user st)"

section \<open>Notions of the specification\<close>

text \<open>A rowid table holds its rows in ascending rowid order, each rowid once.\<close>

definition rowid_ordered :: "store \<Rightarrow> bool" where
  "rowid_ordered st =
     (sorted_wrt (<) (map e_id (expenses st)) \<and> sorted_wrt (<) (map gd_id (goals st)))"

text \<open>
  What the columns of a stored row satisfy, since nothing else can be bound or passes
  \<^verbatim>\<open>NOT NULL\<close>: text without lone surrogates, numbers that are not NaN, a rowid of 64
  bits.
\<close>

definition expense_row_ok :: "ExpenseInDB \<Rightarrow> bool" where
  "expense_row_ok row =
     (text_ok (e_description row) \<and> e_amount row \<noteq> NaN \<and> text_ok (e_category row)
      \<and> text_ok (e_date row) \<and> int64 (e_id row))"

definition goal_row_ok :: "GoalInDB \<Rightarrow> bool" where
  "goal_row_ok row =
     (text_ok (gd_description row) \<and> gd_amount row \<noteq> NaN \<and> gd_progress row \<noteq> NaN
      \<and> int64 (gd_id row))"

definition rows_ok :: "store \<Rightarrow> bool" where
  "rows_ok st = (list_all expense_row_ok (expenses st) \<and> list_all goal_row_ok (goals st))"


text \<open>
  A calendar date in the format YYYY-MM-DD, in the specification's words: four ASCII
  digits, a hyphen, two digits, a hyphen, two digits, naming a day that exists (years
  0001 to 9999).
\<close>

definition ascii_digit :: "nat \<Rightarrow> bool" where
  "ascii_digit c = (48 \<le> c \<and> c \<le> 57)"

definition iso_calendar_date :: "pystr \<Rightarrow> bool" where
  "iso_calendar_date s =
     (length s = 10 \<and> s ! 4 = 45 \<and> s ! 7 = 45
      \<and> list_all ascii_digit [s ! 0, s ! 1, s ! 2, s ! 3, s ! 5, s ! 6, s ! 8, s ! 9]
      \<and> datetime_date
            (1000 * (s ! 0 - 48) + 100 * (s ! 1 - 48) + 10 * (s ! 2 - 48) + (s ! 3 - 48))
            (10 * (s ! 5 - 48) + (s ! 6 - 48))
            (10 * (s ! 8 - 48) + (s ! 9 - 48)) \<noteq> None)"

text \<open>The sum the specification asks of the graph: the exact sum of the finite amounts.\<close>

fun finite_value :: "pyfloat \<Rightarrow> real" where
  "finite_value (Finite x) = x"
| "finite_value _ = 0"

section \<open>Examples\<close>

text \<open>
  Two engines that both sort by date: one sorts the scan as it comes, keeping equal dates
  in scan order; the other sorts the scan read backwards.
\<close>

definition scan_order_sorter :: sorter where
  "scan_order_sorter rows = sort_key e_date rows"


text \<open>
  Three expenses added to the empty database with their dates out of order, two of
  them on the same day (one written without the leading zeros); the three expenses of
  the specification's graph example; two expenses of one day whose sum is not a double;
  one goal; one user.
\<close>

definition unordered_expenses :: store where
  "unordered_expenses =
     snd (add_expense \<lparr>e_description = str ''rent'', e_amount = Finite 700,
                        e_category = str ''home'', e_date = str ''2024-03-02''\<rparr> []
       (snd (add_expense \<lparr>e_description = str ''tea'', e_amount = Finite 3,
                          e_category = str ''food'', e_date = str ''2024-01-15''\<rparr> []
         (snd (add_expense \<lparr>e_description = str ''bus'', e_amount = Finite 2,
                            e_category = str ''travel'', e_date = str ''2024-3-2''\<rparr> []
            init_db)))))"

definition graph_expenses :: store where
  "graph_expenses =
     snd (add_expense \<lparr>e_description = str ''c'', e_amount = Finite 2,
                        e_category = str ''x'', e_date = str ''2024-01-02''\<rparr> []
       (snd (add_expense \<lparr>e_description = str ''b'', e_amount = Finite 5,
                          e_category = str ''x'', e_date = str ''2024-01-01''\<rparr> []
         (snd (add_expense \<lparr>e_description = str ''a'', e_amount = Finite 10,
                            e_category = str ''x'', e_date = str ''2024-01-01''\<rparr> []
            init_db)))))"

definition rounding_expenses :: store where
  "rounding_expenses =
     snd (add_expense \<lparr>e_description = str ''b'', e_amount = Finite 1,
                        e_category = str ''x'', e_date = str ''2024-01-01''\<rparr> []
       (snd (add_expense \<lparr>e_description = str ''a'', e_amount = Finite 10000000000000000,
                          e_category = str ''x'', e_date = str ''2024-01-01''\<rparr> []
          init_db)))"

definition one_goal :: store where
  "one_goal =
     snd (create_goal \<lparr>g_description = Some (str ''Save''), g_amount = Some (Finite 100),
                        g_progress = Some (Finite 50)\<rparr> [] init_db)"

definition one_user :: store where
  "one_user = snd (register_user \<lparr>r_email = str ''a@b.c'', r_password = str ''abc''\<rparr> init_db)"

section \<open>Strings that can be bound\<close>

lemma of_char_less_256: "(of_char c :: nat) < 256"
proof -
  have "(of_char c :: nat) mod 256 < 256"
    by simp
  then show ?thesis
    by (simp only: of_char_mod_256)
qed

lemma text_ok_str: "text_ok (str s)"
proof -
  have "\<not> surrogate (of_char c)" for c
    using of_char_less_256 [of c] unfolding surrogate_def by linarith
  then show ?thesis
    by (simp add: text_ok_def str_def list_ex_iff)
qed

lemma encode_text_ok: "text_ok s \<Longrightarrow> encode s = Inr (concat (map utf8 s))"
  by (simp add: encode_def text_ok_def)

lemma encode_not_text_ok: "\<not> text_ok s \<Longrightarrow> encode s = Inl UnicodeEncodeError"
  by (simp add: encode_def text_ok_def)

lemma hash_password_text_ok:
  "text_ok s \<Longrightarrow> hash_password s = Inr (str (hexdigest (sha256 (concat (map utf8 s)))))"
  by (simp add: hash_password_def encode_text_ok)

lemma hash_password_not_text_ok: "\<not> text_ok s \<Longrightarrow> hash_password s = Inl UnicodeEncodeError"
  by (simp add: hash_password_def encode_not_text_ok)

lemma text_ok_examples:
  "text_ok [55296] = False"
  by (simp add: text_ok_def surrogate_def)

section \<open>Properties of the password digest\<close>

lemma length_hex32: "length (hex32 w) = 8"
  by (simp add: hex32_def)

lemma length_hexdigest: "length (hexdigest s) = 64"
  by (simp add: hexdigest_def length_hex32 split: prod.splits)

lemma length_hash_password: "hash_password password = Inr digest \<Longrightarrow> length digest = 64"
  by (auto simp: hash_password_def str_def length_hexdigest split: sum.splits)

lemma hex_digit_in: "hex_digit n \<in> set ''0123456789abcdef''"
  unfolding hex_digit_def by (rule nth_mem) simp

lemma set_hex32: "set (hex32 w) \<subseteq> set ''0123456789abcdef''"
proof
  fix c
  assume "c \<in> set (hex32 w)"
  then obtain n where "c = hex_digit n"
    unfolding hex32_def set_map by blast
  then show "c \<in> set ''0123456789abcdef''"
    by (simp only: hex_digit_in)
qed

lemma set_hexdigest: "set (hexdigest s) \<subseteq> set ''0123456789abcdef''"
proof (cases s)
  case (fields a b c d e f gh)
  obtain g h where gh: "gh = (g, h)"
    by (cases gh)
  have "set (concat (map hex32 ws)) \<subseteq> set ''0123456789abcdef''" for ws
    unfolding set_concat set_map using set_hex32 by blast
  then show ?thesis
    unfolding hexdigest_def fields gh prod.case .
qed

section \<open>The example stores, evaluated\<close>

lemmas strptime_defs =
  strptime_def re_match_def re_Y_def re_m_def re_d_def re_lit_def re_two_def re_two_d_def
  re_one_def decimal_def nd_zeros_def datetime_date_def days_in_month_def is_leap_def str_def

lemmas isoformat_defs = isoformat_def zfill_def str_nat.simps digit_char_def

lemma strptime_examples:
  "strptime (str ''2024-03-02'') = Some (Date 2024 3 2)"
  "strptime (str ''2024-01-15'') = Some (Date 2024 1 15)"
  "strptime (str ''2024-3-2'') = Some (Date 2024 3 2)"
  "strptime (str ''2024-01-01'') = Some (Date 2024 1 1)"
  "strptime (str ''2024-01-02'') = Some (Date 2024 1 2)"
  "strptime (str ''2024-13-01'') = None"
  by (simp_all add: strptime_defs)

lemma isoformat_examples:
  "isoformat (Date 2024 3 2) = ''2024-03-02''"
  "isoformat (Date 2024 (Suc 0) 15) = ''2024-01-15''"
  "isoformat (Date 2024 (Suc 0) (Suc 0)) = ''2024-01-01''"
  "isoformat (Date 2024 (Suc 0) 2) = ''2024-01-02''"
  by (simp_all add: isoformat_defs)

lemma int64_small: "int64 1" "int64 2" "int64 3" "int64 4" "int64 7"
  by (simp_all add: int64_def)


lemma graph_expenses_eq:
  "graph_expenses =
     \<lparr>users = Map.empty,
      expenses =
        [\<lparr>e_description = str ''a'', e_amount = Finite 10, e_category = str ''x'',
          e_date = str ''2024-01-01'', e_id = 1\<rparr>,
         \<lparr>e_description = str ''b'', e_amount = Finite 5, e_category = str ''x'',
          e_date = str ''2024-01-01'', e_id = 2\<rparr>,
         \<lparr>e_description = str ''c'', e_amount = Finite 2, e_category = str ''x'',
          e_date = str ''2024-01-02'', e_id = 3\<rparr>],
      expenses_seq = 3, goals = [], goals_seq = 0\<rparr>"
  by (simp add: graph_expenses_def add_expense_def insert_expense_def strptime_examples
      isoformat_examples text_ok_str int64_small init_db_def lastrowid_def Let_def)

lemma rounding_expenses_eq:
  "rounding_expenses =
     \<lparr>users = Map.empty,
      expenses =
        [\<lparr>e_description = str ''a'', e_amount = Finite 10000000000000000,
          e_category = str ''x'', e_date = str ''2024-01-01'', e_id = 1\<rparr>,
         \<lparr>e_description = str ''b'', e_amount = Finite 1, e_category = str ''x'',
          e_date = str ''2024-01-01'', e_id = 2\<rparr>],
      expenses_seq = 2, goals = [], goals_seq = 0\<rparr>"
  by (simp add: rounding_expenses_def add_expense_def insert_expense_def strptime_examples
      isoformat_examples text_ok_str int64_small init_db_def lastrowid_def Let_def)

lemma one_goal_eq:
  "one_goal =
     \<lparr>users = Map.empty, expenses = [], expenses_seq = 0,
      goals = [\<lparr>gd_description = str ''Save'', gd_amount = Finite 100,
                gd_progress = Finite 50, gd_id = 1\<rparr>],
      goals_seq = 1\<rparr>"
  by (simp add: one_goal_def create_goal_def insert_goal_def text_ok_str int64_small
      init_db_def lastrowid_def Let_def)

lemma one_user_eq:
  "one_user =
     \<lparr>users = [str ''a@b.c'' \<mapsto> str (hexdigest (sha256 (concat (map utf8 (str ''abc'')))))],
      expenses = [], expenses_seq = 0, goals = [], goals_seq = 0\<rparr>"
  by (simp add: one_user_def register_user_def hash_password_text_ok insert_user_def
      text_ok_str init_db_def)

section \<open>The identity gate\<close>

text \<open>
  Claim C8.  On every route behind the gate, whatever the operation and its body: when
  the identity provider rejects the token, the answer is the 401 error "Invalid or
  expired token" and the store is unchanged, no handler having run; when it accepts
  the token, the handler runs with the decoded claims, which the protected example
  route returns.
\<close>

theorem gated_request_unauthorized:
  "(verify_id_token token = None \<longrightarrow>
      handle verify_id_token order_by (Gated token op) st
        = (Inl (HTTPException 401 ''Invalid or expired token''), st))
   \<and> (verify_id_token token = Some user \<longrightarrow>
        handle verify_id_token order_by (Gated token op) st = run_operation order_by op user st
        \<and> handle verify_id_token order_by (Gated token ProtectedRoute) st
            = (Inr (ProtectedMessage ''Welcome to a protected route!'' user), st))"
  by (simp add: verify_token_def protected_route_def)

theorem gated_request_unauthorized_witness:
  "handle (\<lambda>token. if token = ''good'' then Some [(''uid'', ''u1'')] else None)
     scan_order_sorter (Gated ''bad'' (DeleteExpense 1)) unordered_expenses
     = (Inl (HTTPException 401 ''Invalid or expired token''), unordered_expenses)
   \<and> handle (\<lambda>token. if token = ''good'' then Some [(''uid'', ''u1'')] else None)
       scan_order_sorter (Gated ''good'' ProtectedRoute) unordered_expenses
     = (Inr (ProtectedMessage ''Welcome to a protected route!'' [(''uid'', ''u1'')]),
        unordered_expenses)"
proof -
  let ?v = "\<lambda>token. if token = ''good'' then Some [(''uid'', ''u1'')] else None"
  have a: "?v ''bad'' = None"
    by simp
  have b: "?v ''good'' = Some [(''uid'', ''u1'')]"
    by simp
  from gated_request_unauthorized
    [where verify_id_token = ?v and token = "''bad''" and op = "DeleteExpense 1"
       and st = unordered_expenses and order_by = scan_order_sorter] a
  have "handle ?v scan_order_sorter (Gated ''bad'' (DeleteExpense 1)) unordered_expenses
          = (Inl (HTTPException 401 ''Invalid or expired token''), unordered_expenses)"
    by blast
  moreover
  from gated_request_unauthorized
    [where verify_id_token = ?v and token = "''good''" and user = "[(''uid'', ''u1'')]"
       and op = ProtectedRoute and st = unordered_expenses and order_by = scan_order_sorter] b
  have "handle ?v scan_order_sorter (Gated ''good'' ProtectedRoute) unordered_expenses
          = (Inr (ProtectedMessage ''Welcome to a protected route!'' [(''uid'', ''u1'')]),
             unordered_expenses)"
    by blast
  ultimately show ?thesis
    by blast
qed

section \<open>Registration and login\<close>

text \<open>
  Claim C5, amended.  For a registration whose email and password hold no lone
  surrogate: if the email is already in the users table, it fails with the 400 error
  "Email already registered" and leaves the store as it was; if the email is fresh, it
  adds the email with the digest of the password and answers with the confirmation
  message alone.  So a second such registration of the same email fails, and the
  digest stored by the first is still there.
\<close>

theorem register_user_duplicate_email:
  assumes "text_ok (r_email user)" and "text_ok (r_password user)"
  shows "(users st (r_email user) \<noteq> None \<longrightarrow>
            register_user user st = (Inl (HTTPException 400 ''Email already registered''), st))
         \<and> (users st (r_email user) = None \<longrightarrow>
              (\<exists>hashed_password.
                 hash_password (r_password user) = Inr hashed_password
                 \<and> register_user user st
                     = (Inr (Message ''User registered successfully''),
                        st\<lparr>users := (users st)(r_email user \<mapsto> hashed_password)\<rparr>)))
         \<and> (users st (r_email user) = None \<and> r_email user' = r_email user
              \<and> text_ok (r_password user') \<longrightarrow>
              register_user user' (snd (register_user user st))
                = (Inl (HTTPException 400 ''Email already registered''),
                   snd (register_user user st))
              \<and> map_option Inr (users (snd (register_user user' (snd (register_user user st))))
                                  (r_email user))
                = Some (hash_password (r_password user)))"
  using assms
  by (auto simp: register_user_def hash_password_text_ok insert_user_def text_ok_str)

theorem register_user_duplicate_email_witness:
  "text_ok (str ''a@b.c'') \<and> text_ok (str ''abc'') \<and> text_ok (str ''two'')
   \<and> users init_db (str ''a@b.c'') = None
   \<and> register_user \<lparr>r_email = str ''a@b.c'', r_password = str ''two''\<rparr> one_user
       = (Inl (HTTPException 400 ''Email already registered''), one_user)
   \<and> map_option Inr (users one_user (str ''a@b.c'')) = Some (hash_password (str ''abc''))"
proof -
  let ?u = "\<lparr>r_email = str ''a@b.c'', r_password = str ''abc''\<rparr>"
  let ?u' = "\<lparr>r_email = str ''a@b.c'', r_password = str ''two''\<rparr>"
  have a: "text_ok (r_email ?u)" "text_ok (r_password ?u)" "text_ok (r_password ?u')"
    by (simp_all add: text_ok_str)
  have b: "users init_db (r_email ?u) = None" "r_email ?u' = r_email ?u"
    by (simp_all add: init_db_def)
  from register_user_duplicate_email [OF a(1) a(2), of init_db ?u'] a(3) b
  have "register_user ?u' (snd (register_user ?u init_db))
          = (Inl (HTTPException 400 ''Email already registered''), snd (register_user ?u init_db))
        \<and> map_option Inr (users (snd (register_user ?u' (snd (register_user ?u init_db))))
                            (r_email ?u))
          = Some (hash_password (r_password ?u))"
    by blast
  then have c: "register_user ?u' one_user
          = (Inl (HTTPException 400 ''Email already registered''), one_user)"
    and d: "map_option Inr (users (snd (register_user ?u' one_user)) (r_email ?u))
          = Some (hash_password (r_password ?u))"
    unfolding one_user_def [symmetric] by blast+
  from d have "map_option Inr (users one_user (r_email ?u)) = Some (hash_password (r_password ?u))"
    unfolding c by simp
  moreover have "r_email ?u = str ''a@b.c''" "r_password ?u = str ''abc''"
    "r_password ?u' = str ''two''"
    by simp_all
  ultimately show ?thesis
    using a b c by metis
qed

theorem register_user_duplicate_email_counterexample:
  "users one_user (str ''a@b.c'') \<noteq> None
   \<and> register_user \<lparr>r_email = str ''a@b.c'', r_password = [55296]\<rparr> one_user
       = (Inl UnicodeEncodeError, one_user)
   \<and> fst (register_user \<lparr>r_email = str ''a@b.c'', r_password = [55296]\<rparr> one_user)
       \<noteq> Inl (HTTPException 400 ''Email already registered'')"
  by (simp add: one_user_eq register_user_def hash_password_not_text_ok text_ok_examples)

text \<open>
  Claim C6, amended.  For logins whose email and password hold no lone surrogate:
  login succeeds exactly when the users table holds, under the email, the digest of
  the supplied password; every other such login fails with the 401 error "Invalid
  credentials" and changes nothing, so a login with an unknown email and a login with a
  known email and a wrong password return the same error.
\<close>

theorem login_user_uniform_failure:
  assumes "text_ok (l_email user)" and "text_ok (l_password user)"
    and "text_ok (l_email user')" and "text_ok (l_password user')"
  shows "(login_user user st = (Inr (Message ''Login successful''), st)
            \<longleftrightarrow> map_option Inr (users st (l_email user)) = Some (hash_password (l_password user)))
         \<and> (map_option Inr (users st (l_email user)) \<noteq> Some (hash_password (l_password user)) \<longrightarrow>
              login_user user st = (Inl (HTTPException 401 ''Invalid credentials''), st))
         \<and> (users st (l_email user) = None
              \<and> users st' (l_email user') = Some h \<and> Inr h \<noteq> hash_password (l_password user') \<longrightarrow>
              fst (login_user user st) = fst (login_user user' st')
              \<and> fst (login_user user st) = Inl (HTTPException 401 ''Invalid credentials''))"
  using assms
  by (auto simp: login_user_def select_password_def hash_password_text_ok split: option.splits)

theorem login_user_uniform_failure_witness:
  "text_ok (str ''x@y.z'') \<and> text_ok (str ''a@b.c'') \<and> text_ok (str ''guess'')
   \<and> users (init_db\<lparr>users := [str ''a@b.c'' \<mapsto> str ''stored'']\<rparr>) (str ''x@y.z'') = None
   \<and> users (init_db\<lparr>users := [str ''a@b.c'' \<mapsto> str ''stored'']\<rparr>) (str ''a@b.c'')
       = Some (str ''stored'')
   \<and> Inr (str ''stored'') \<noteq> hash_password (str ''guess'')
   \<and> fst (login_user \<lparr>l_email = str ''x@y.z'', l_password = str ''guess''\<rparr>
            (init_db\<lparr>users := [str ''a@b.c'' \<mapsto> str ''stored'']\<rparr>))
       = fst (login_user \<lparr>l_email = str ''a@b.c'', l_password = str ''guess''\<rparr>
            (init_db\<lparr>users := [str ''a@b.c'' \<mapsto> str ''stored'']\<rparr>))
   \<and> fst (login_user \<lparr>l_email = str ''x@y.z'', l_password = str ''guess''\<rparr>
            (init_db\<lparr>users := [str ''a@b.c'' \<mapsto> str ''stored'']\<rparr>))
       = Inl (HTTPException 401 ''Invalid credentials'')"
proof -
  let ?st = "init_db\<lparr>users := [str ''a@b.c'' \<mapsto> str ''stored'']\<rparr>"
  let ?u = "\<lparr>l_email = str ''x@y.z'', l_password = str ''guess''\<rparr>"
  let ?u' = "\<lparr>l_email = str ''a@b.c'', l_password = str ''guess''\<rparr>"
  have t: "text_ok (l_email ?u)" "text_ok (l_password ?u)" "text_ok (l_email ?u')"
    "text_ok (l_password ?u')"
    by (simp_all add: text_ok_str)
  have ne: "str ''x@y.z'' \<noteq> str ''a@b.c''"
    by (simp add: str_def)
  have a: "users ?st (l_email ?u) = None"
    using ne by simp
  have b: "users ?st (l_email ?u') = Some (str ''stored'')"
    by simp
  have c: "Inr (str ''stored'') \<noteq> hash_password (l_password ?u')"
  proof
    assume "Inr (str ''stored'') = hash_password (l_password ?u')"
    then have "length (str ''stored'') = 64"
      using length_hash_password [of "l_password ?u'" "str ''stored''"] by simp
    then show False
      by (simp add: str_def)
  qed
  from login_user_uniform_failure [OF t, of ?st ?st "str ''stored''"] a b c
  have "fst (login_user ?u ?st) = fst (login_user ?u' ?st)
        \<and> fst (login_user ?u ?st) = Inl (HTTPException 401 ''Invalid credentials'')"
    by blast
  moreover have "l_email ?u = str ''x@y.z''" "l_email ?u' = str ''a@b.c''"
    "l_password ?u' = str ''guess''" "l_password ?u = str ''guess''"
    by simp_all
  ultimately show ?thesis
    using a b c t by metis
qed

theorem login_user_uniform_failure_counterexample:
  "users one_user (str ''x@y.z'') = None \<and> users one_user (str ''a@b.c'') \<noteq> None
   \<and> login_user \<lparr>l_email = str ''x@y.z'', l_password = [55296]\<rparr> one_user
       = (Inl (HTTPException 401 ''Invalid credentials''), one_user)
   \<and> login_user \<lparr>l_email = str ''a@b.c'', l_password = [55296]\<rparr> one_user
       = (Inl UnicodeEncodeError, one_user)
   \<and> fst (login_user \<lparr>l_email = str ''x@y.z'', l_password = [55296]\<rparr> one_user)
       \<noteq> fst (login_user \<lparr>l_email = str ''a@b.c'', l_password = [55296]\<rparr> one_user)"
proof -
  have ne: "str ''x@y.z'' \<noteq> str ''a@b.c''"
    by (simp add: str_def)
  then show ?thesis
    by (simp add: one_user_eq login_user_def select_password_def text_ok_str
        hash_password_not_text_ok text_ok_examples)
qed

section \<open>Deleting\<close>

text \<open>
  Claim C4, amended.  For every id in the signed 64-bit range: deleting an expense
  answers with the success message, removes the rows with that id and is a no-op when
  there is none; deleting a goal whose id no stored goal has fails with the 404 error
  "Goal not found" and changes nothing, and when a goal has the id it succeeds and
  removes it.  The two differ on a missing id and only there.
\<close>

theorem delete_expense_always_succeeds_delete_goal_404:
  assumes "int64 i"
  shows "fst (delete_expense i user st)
           = Inr (Message (''Expense '' @ str_int i @ '' deleted successfully''))
         \<and> expenses (snd (delete_expense i user st))
             = filter (\<lambda>row. e_id row \<noteq> i) (expenses st)
         \<and> (i \<notin> e_id ` set (expenses st) \<longrightarrow> snd (delete_expense i user st) = st)
         \<and> (i \<notin> gd_id ` set (goals st) \<longrightarrow>
              delete_goal i user st = (Inl (HTTPException 404 ''Goal not found''), st))
         \<and> (i \<in> gd_id ` set (goals st) \<longrightarrow>
              delete_goal i user st
                = (Inr (Message ''Goal deleted successfully''),
                   st\<lparr>goals := filter (\<lambda>row. gd_id row \<noteq> i) (goals st)\<rparr>))"
proof -
  have a: "i \<notin> e_id ` set (expenses st) \<longrightarrow>
             filter (\<lambda>row. e_id row \<noteq> i) (expenses st) = expenses st"
    by (auto simp: filter_id_conv)
  have b: "i \<notin> gd_id ` set (goals st) \<longleftrightarrow> filter (\<lambda>row. gd_id row = i) (goals st) = []"
    by (auto simp: filter_empty_conv)
  show ?thesis
    using a b assms
    by (auto simp: delete_expense_def delete_expense_row_def delete_goal_def
        delete_goal_row_def)
qed

theorem delete_expense_always_succeeds_delete_goal_404_witness:
  "int64 7 \<and> int64 1
   \<and> 7 \<notin> e_id ` set (expenses one_goal) \<and> 7 \<notin> gd_id ` set (goals one_goal)
   \<and> 1 \<in> gd_id ` set (goals one_goal)
   \<and> delete_expense 7 [] one_goal
       = (Inr (Message ''Expense 7 deleted successfully''), one_goal)
   \<and> delete_goal 7 [] one_goal = (Inl (HTTPException 404 ''Goal not found''), one_goal)
   \<and> delete_goal 1 [] one_goal
       = (Inr (Message ''Goal deleted successfully''), one_goal\<lparr>goals := []\<rparr>)"
proof -
  have a: "7 \<notin> e_id ` set (expenses one_goal)" "7 \<notin> gd_id ` set (goals one_goal)"
    "1 \<in> gd_id ` set (goals one_goal)"
    by (simp_all add: one_goal_eq)
  have i: "int64 7" "int64 1"
    by (simp_all add: int64_small)
  have s: "str_int 7 = ''7''"
    by (simp add: str_int_def str_nat.simps digit_char_def)
  have f: "filter (\<lambda>row. gd_id row \<noteq> 1) (goals one_goal) = []"
    by (simp add: one_goal_eq)
  note t7 = delete_expense_always_succeeds_delete_goal_404 [OF i(1), of "[]" one_goal]
  note t1 = delete_expense_always_succeeds_delete_goal_404 [OF i(2), of "[]" one_goal]
  from t7 a have "delete_expense 7 [] one_goal
       = (Inr (Message ''Expense 7 deleted successfully''), one_goal)"
    unfolding s by (metis append_Cons append_Nil prod.collapse)
  moreover from t7 a have "delete_goal 7 [] one_goal
       = (Inl (HTTPException 404 ''Goal not found''), one_goal)"
    by blast
  moreover from t1 a have "delete_goal 1 [] one_goal
       = (Inr (Message ''Goal deleted successfully''), one_goal\<lparr>goals := []\<rparr>)"
    unfolding f by blast
  ultimately show ?thesis
    using a i by blast
qed

theorem delete_expense_always_succeeds_delete_goal_404_counterexample:
  "delete_expense 9223372036854775808 [] one_goal = (Inl OverflowError, one_goal)
   \<and> delete_goal 9223372036854775808 [] one_goal = (Inl OverflowError, one_goal)
   \<and> 9223372036854775808 \<notin> gd_id ` set (goals one_goal)"
  by (simp add: delete_expense_def delete_expense_row_def delete_goal_def delete_goal_row_def
      int64_def one_goal_eq)

section \<open>What the tables hold\<close>

lemma rows_ok_init_db: "rows_ok init_db"
  by (simp add: rows_ok_def init_db_def)

lemma rows_ok_run_operation:
  assumes "rows_ok st"
  shows "rows_ok (snd (run_operation order_by op user st))"
proof (cases op)
  case (AddExpense expense)
  with assms show ?thesis
    by (auto simp: rows_ok_def add_expense_def insert_expense_def Let_def expense_row_ok_def
        text_ok_str split: option.splits)
next
  case (DeleteExpense i)
  with assms show ?thesis
    by (auto simp: rows_ok_def delete_expense_def delete_expense_row_def list_all_iff)
next
  case (CreateGoal goal)
  with assms show ?thesis
    by (auto simp: rows_ok_def create_goal_def insert_goal_def Let_def goal_row_ok_def
        split: option.splits)
next
  case (UpdateGoal i goal)
  with assms show ?thesis
    by (auto simp: rows_ok_def update_goal_def select_goal_def update_goal_row_def Let_def
        goal_row_ok_def list_all_iff split: option.splits if_splits)
next
  case (DeleteGoal i)
  with assms show ?thesis
    by (auto simp: rows_ok_def delete_goal_def delete_goal_row_def list_all_iff)
qed (use assms in \<open>simp_all add: protected_route_def get_expenses_def get_expenses_graph_def
      get_goals_def\<close>)

lemma rows_ok_handle:
  assumes "rows_ok st"
  shows "rows_ok (snd (handle verify_id_token order_by req st))"
proof (cases req)
  case (Gated token op)
  with assms rows_ok_run_operation [OF assms] show ?thesis
    by (simp split: sum.splits)
qed (use assms in \<open>auto simp: root_def register_user_def login_user_def select_password_def
      insert_user_def rows_ok_def split: option.splits sum.splits error.splits if_splits\<close>)

lemma rows_ok_reachable:
  "rows_ok (foldl (\<lambda>st req. snd (handle verify_id_token order_by req st)) init_db reqs)"
proof (induction reqs rule: rev_induct)
  case Nil
  show ?case by (simp add: rows_ok_init_db)
next
  case (snoc req reqs)
  then show ?case by (simp add: rows_ok_handle)
qed

lemma find_goal_row_ok:
  "rows_ok st \<Longrightarrow> find (\<lambda>row. gd_id row = i) (goals st) = Some row \<Longrightarrow>
   goal_row_ok row \<and> gd_id row = i"
  by (auto simp: rows_ok_def list_all_iff find_Some_iff)

section \<open>Updating a goal\<close>

lemma find_replace_row:
  "find (\<lambda>r. gd_id r = i) rows = Some old \<Longrightarrow> gd_id new = i \<Longrightarrow>
   find (\<lambda>r. gd_id r = i) (map (\<lambda>r. if gd_id r = i then new else r) rows) = Some new"
  by (induction rows) (auto split: if_splits)

lemma update_goal_found:
  assumes "rows_ok st"
    and "find (\<lambda>row. gd_id row = goal_id) (goals st) = Some existing_goal"
    and "new = \<lparr>gd_description =
                   (case g_description goal of
                      Some d \<Rightarrow> if d \<noteq> [] then d else gd_description existing_goal
                    | None \<Rightarrow> gd_description existing_goal),
                 gd_amount =
                   (case g_amount goal of
                      Some a \<Rightarrow> if a \<noteq> Finite 0 then a else gd_amount existing_goal
                    | None \<Rightarrow> gd_amount existing_goal),
                 gd_progress =
                   (case g_progress goal of
                      Some p \<Rightarrow> p
                    | None \<Rightarrow> gd_progress existing_goal),
                 gd_id = goal_id\<rparr>"
  shows "update_goal goal_id goal user st =
           (if \<not> text_ok (gd_description new) then (Inl UnicodeEncodeError, st)
            else if gd_amount new = NaN \<or> gd_progress new = NaN then (Inl IntegrityError, st)
            else (Inr (GoalOut new),
                  st\<lparr>goals := map (\<lambda>row. if gd_id row = goal_id then new else row)
                                   (goals st)\<rparr>))"
proof -
  have "int64 goal_id"
    using find_goal_row_ok [OF assms(1,2)] by (auto simp: goal_row_ok_def)
  then have s: "select_goal goal_id st = Inr (Some existing_goal)"
    using assms(2) by (simp add: select_goal_def)
  show ?thesis
    using \<open>int64 goal_id\<close>
    by (simp add: update_goal_def s update_goal_row_def assms(3) Let_def)
qed

text \<open>
  Claim C1, amended.  On a store whose rows are what the tables can hold, for an update
  whose id matches a stored goal and whose incoming description has no lone surrogate
  and whose incoming amount and progress are not NaN: the update returns, and stores
  under that id, the goal whose description is the stored one if the incoming
  description is empty and the incoming one otherwise, whose amount is the stored one
  if the incoming amount is 0 and the incoming one otherwise, and whose progress is the
  incoming progress, 0 included.
\<close>

theorem update_goal_keeps_falsy_fields:
  assumes "rows_ok st"
    and "find (\<lambda>row. gd_id row = goal_id) (goals st) = Some existing_goal"
    and "goal = \<lparr>g_description = Some d, g_amount = Some a, g_progress = Some p\<rparr>"
    and "text_ok d" and "a \<noteq> NaN" and "p \<noteq> NaN"
  shows "let updated = \<lparr>gd_description = (if d = [] then gd_description existing_goal else d),
                         gd_amount = (if a = Finite 0 then gd_amount existing_goal else a),
                         gd_progress = p, gd_id = goal_id\<rparr>
         in fst (update_goal goal_id goal user st) = Inr (GoalOut updated)
            \<and> find (\<lambda>row. gd_id row = goal_id) (goals (snd (update_goal goal_id goal user st)))
                = Some updated"
proof -
  define new where
    "new = \<lparr>gd_description = (if d = [] then gd_description existing_goal else d),
            gd_amount = (if a = Finite 0 then gd_amount existing_goal else a),
            gd_progress = p, gd_id = goal_id\<rparr>"
  have ok: "goal_row_ok existing_goal"
    using find_goal_row_ok [OF assms(1,2)] by simp
  have b: "text_ok (gd_description new)" "gd_amount new \<noteq> NaN" "gd_progress new \<noteq> NaN"
    using ok assms(4-6) by (simp_all add: goal_row_ok_def new_def)
  have n: "new = \<lparr>gd_description =
                   (case g_description goal of
                      Some d \<Rightarrow> if d \<noteq> [] then d else gd_description existing_goal
                    | None \<Rightarrow> gd_description existing_goal),
                 gd_amount =
                   (case g_amount goal of
                      Some a \<Rightarrow> if a \<noteq> Finite 0 then a else gd_amount existing_goal
                    | None \<Rightarrow> gd_amount existing_goal),
                 gd_progress =
                   (case g_progress goal of
                      Some p \<Rightarrow> p
                    | None \<Rightarrow> gd_progress existing_goal),
                 gd_id = goal_id\<rparr>"
    by (simp add: new_def assms(3))
  have r: "update_goal goal_id goal user st
             = (Inr (GoalOut new),
                st\<lparr>goals := map (\<lambda>row. if gd_id row = goal_id then new else row) (goals st)\<rparr>)"
    using update_goal_found [OF assms(1,2) n, of user] b by simp
  have f: "find (\<lambda>row. gd_id row = goal_id)
             (map (\<lambda>row. if gd_id row = goal_id then new else row) (goals st)) = Some new"
    by (rule find_replace_row [OF assms(2)]) (simp add: new_def)
  show ?thesis
    unfolding Let_def new_def [symmetric] r using f by simp
qed

theorem update_goal_keeps_falsy_fields_witness:
  "rows_ok one_goal
   \<and> find (\<lambda>row. gd_id row = 1) (goals one_goal)
       = Some \<lparr>gd_description = str ''Save'', gd_amount = Finite 100, gd_progress = Finite 50,
               gd_id = 1\<rparr>
   \<and> text_ok [] \<and> Finite 0 \<noteq> NaN
   \<and> fst (update_goal 1 \<lparr>g_description = Some [], g_amount = Some (Finite 0),
                           g_progress = Some (Finite 0)\<rparr> [] one_goal)
       = Inr (GoalOut \<lparr>gd_description = str ''Save'', gd_amount = Finite 100,
                        gd_progress = Finite 0, gd_id = 1\<rparr>)
   \<and> find (\<lambda>row. gd_id row = 1)
        (goals (snd (update_goal 1 \<lparr>g_description = Some [], g_amount = Some (Finite 0),
                                     g_progress = Some (Finite 0)\<rparr> [] one_goal)))
       = Some \<lparr>gd_description = str ''Save'', gd_amount = Finite 100, gd_progress = Finite 0,
               gd_id = 1\<rparr>"
proof -
  let ?old = "\<lparr>gd_description = str ''Save'', gd_amount = Finite 100, gd_progress = Finite 50,
               gd_id = 1\<rparr>"
  let ?goal = "\<lparr>g_description = Some [], g_amount = Some (Finite 0), g_progress = Some (Finite 0)\<rparr>"
  have r: "rows_ok one_goal"
    by (simp add: one_goal_eq rows_ok_def goal_row_ok_def text_ok_str int64_small)
  have a: "find (\<lambda>row. gd_id row = 1) (goals one_goal) = Some ?old"
    by (simp add: one_goal_eq)
  have t: "text_ok []" "Finite 0 \<noteq> NaN"
    by (simp_all add: text_ok_def)
  from update_goal_keeps_falsy_fields [OF r a refl t(1) t(2) t(2), of "[]"] show ?thesis
    using r a t by (simp add: Let_def)
qed

theorem update_goal_keeps_falsy_fields_counterexample:
  "find (\<lambda>row. gd_id row = 1) (goals one_goal)
     = Some \<lparr>gd_description = str ''Save'', gd_amount = Finite 100, gd_progress = Finite 50,
             gd_id = 1\<rparr>
   \<and> update_goal 1 \<lparr>g_description = Some [], g_amount = Some NaN,
                      g_progress = Some (Finite 0)\<rparr> [] one_goal
       = (Inl IntegrityError, one_goal)"
  by (simp add: one_goal_eq update_goal_def select_goal_def update_goal_row_def int64_small
      text_ok_str)

text \<open>
  Claim C10, amended.  The class \<^verbatim>\<open>Goal\<close> requires all three fields, so the progress
  of a goal it has read is there, and the branch of \<^verbatim>\<open>update_goal\<close> that keeps the
  stored progress is taken only for a progress that is not there, which no such goal has.
  On a store whose rows are what the tables can hold, for an update whose id matches a
  stored goal: whenever the update returns a goal, its progress is the incoming one and
  that goal is what the store now holds; it returns a goal when the incoming
  description has no lone surrogate and the incoming amount and progress are not NaN;
  and when it returns none, the store is unchanged.
\<close>

theorem update_goal_progress_never_retained:
  assumes "rows_ok st"
    and "find (\<lambda>row. gd_id row = goal_id) (goals st) = Some existing_goal"
    and "Goal_required goal"
  shows "(\<forall>row. fst (update_goal goal_id goal user st) = Inr (GoalOut row) \<longrightarrow>
            g_progress goal = Some (gd_progress row)
            \<and> find (\<lambda>r. gd_id r = goal_id) (goals (snd (update_goal goal_id goal user st)))
                = Some row)
         \<and> ((\<forall>d. g_description goal = Some d \<longrightarrow> text_ok d) \<and> g_amount goal \<noteq> Some NaN
              \<and> g_progress goal \<noteq> Some NaN \<longrightarrow>
              (\<exists>row. fst (update_goal goal_id goal user st) = Inr (GoalOut row)))
         \<and> ((\<forall>row. fst (update_goal goal_id goal user st) \<noteq> Inr (GoalOut row)) \<longrightarrow>
              snd (update_goal goal_id goal user st) = st)
         \<and> (\<forall>row. fst (update_goal goal_id (goal\<lparr>g_progress := None\<rparr>) user st)
                    = Inr (GoalOut row) \<longrightarrow>
                gd_progress row = gd_progress existing_goal)"
proof -
  obtain d a p where g: "g_description goal = Some d" "g_amount goal = Some a"
      "g_progress goal = Some p"
    using assms(3) by (auto simp: Goal_required_def)
  have ok: "goal_row_ok existing_goal"
    using find_goal_row_ok [OF assms(1,2)] by simp
  define new where
    "new = \<lparr>gd_description = (if d \<noteq> [] then d else gd_description existing_goal),
            gd_amount = (if a \<noteq> Finite 0 then a else gd_amount existing_goal),
            gd_progress = p, gd_id = goal_id\<rparr>"
  define kept where "kept = new\<lparr>gd_progress := gd_progress existing_goal\<rparr>"
  have u: "update_goal goal_id goal user st =
           (if \<not> text_ok (gd_description new) then (Inl UnicodeEncodeError, st)
            else if gd_amount new = NaN \<or> gd_progress new = NaN then (Inl IntegrityError, st)
            else (Inr (GoalOut new),
                  st\<lparr>goals := map (\<lambda>row. if gd_id row = goal_id then new else row)
                                   (goals st)\<rparr>))"
    by (rule update_goal_found [OF assms(1,2)]) (simp add: new_def g)
  have k: "update_goal goal_id (goal\<lparr>g_progress := None\<rparr>) user st =
           (if \<not> text_ok (gd_description kept) then (Inl UnicodeEncodeError, st)
            else if gd_amount kept = NaN \<or> gd_progress kept = NaN then (Inl IntegrityError, st)
            else (Inr (GoalOut kept),
                  st\<lparr>goals := map (\<lambda>row. if gd_id row = goal_id then kept else row)
                                   (goals st)\<rparr>))"
    by (rule update_goal_found [OF assms(1,2)]) (simp add: kept_def new_def g)
  have f: "find (\<lambda>row. gd_id row = goal_id)
             (map (\<lambda>row. if gd_id row = goal_id then new else row) (goals st)) = Some new"
    by (rule find_replace_row [OF assms(2)]) (simp add: new_def)
  have c1: "\<forall>row. fst (update_goal goal_id goal user st) = Inr (GoalOut row) \<longrightarrow>
            g_progress goal = Some (gd_progress row)
            \<and> find (\<lambda>r. gd_id r = goal_id) (goals (snd (update_goal goal_id goal user st)))
                = Some row"
    using f by (auto simp: u g new_def split: if_splits)
  have c2: "(\<forall>d. g_description goal = Some d \<longrightarrow> text_ok d) \<and> g_amount goal \<noteq> Some NaN
              \<and> g_progress goal \<noteq> Some NaN \<longrightarrow>
              (\<exists>row. fst (update_goal goal_id goal user st) = Inr (GoalOut row))"
    using ok by (auto simp: u g new_def goal_row_ok_def)
  have c3: "(\<forall>row. fst (update_goal goal_id goal user st) \<noteq> Inr (GoalOut row)) \<longrightarrow>
              snd (update_goal goal_id goal user st) = st"
    by (auto simp: u split: if_splits)
  have c4: "\<forall>row. fst (update_goal goal_id (goal\<lparr>g_progress := None\<rparr>) user st)
                    = Inr (GoalOut row) \<longrightarrow>
                gd_progress row = gd_progress existing_goal"
    by (auto simp: k kept_def split: if_splits)
  from c1 c2 c3 c4 show ?thesis
    by blast
qed

theorem update_goal_progress_never_retained_witness:
  "rows_ok one_goal
   \<and> find (\<lambda>row. gd_id row = 1) (goals one_goal)
       = Some \<lparr>gd_description = str ''Save'', gd_amount = Finite 100, gd_progress = Finite 50,
               gd_id = 1\<rparr>
   \<and> Goal_required \<lparr>g_description = Some (str ''More''), g_amount = Some (Finite 0),
                      g_progress = Some (Finite 0)\<rparr>
   \<and> fst (update_goal 1 \<lparr>g_description = Some (str ''More''), g_amount = Some (Finite 0),
                           g_progress = Some (Finite 0)\<rparr> [] one_goal)
       = Inr (GoalOut \<lparr>gd_description = str ''More'', gd_amount = Finite 100,
                        gd_progress = Finite 0, gd_id = 1\<rparr>)
   \<and> find (\<lambda>r. gd_id r = 1)
        (goals (snd (update_goal 1 \<lparr>g_description = Some (str ''More''),
                                     g_amount = Some (Finite 0),
                                     g_progress = Some (Finite 0)\<rparr> [] one_goal)))
       = Some \<lparr>gd_description = str ''More'', gd_amount = Finite 100, gd_progress = Finite 0,
               gd_id = 1\<rparr>"
proof -
  let ?old = "\<lparr>gd_description = str ''Save'', gd_amount = Finite 100, gd_progress = Finite 50,
               gd_id = 1\<rparr>"
  let ?goal = "\<lparr>g_description = Some (str ''More''), g_amount = Some (Finite 0),
               g_progress = Some (Finite 0)\<rparr>"
  let ?new = "\<lparr>gd_description = str ''More'', gd_amount = Finite 100, gd_progress = Finite 0,
               gd_id = 1\<rparr>"
  have r: "rows_ok one_goal"
    by (simp add: one_goal_eq rows_ok_def goal_row_ok_def text_ok_str int64_small)
  have a: "find (\<lambda>row. gd_id row = 1) (goals one_goal) = Some ?old"
    by (simp add: one_goal_eq)
  have q: "Goal_required ?goal"
    by (simp add: Goal_required_def)
  have ne: "str ''More'' \<noteq> []"
    by (simp add: str_def)
  have e: "fst (update_goal 1 ?goal [] one_goal) = Inr (GoalOut ?new)"
    using ne
    by (simp add: one_goal_eq update_goal_def select_goal_def update_goal_row_def int64_small
        text_ok_str Let_def)
  from update_goal_progress_never_retained [OF r a q, of "[]"] e
  have "find (\<lambda>r. gd_id r = 1) (goals (snd (update_goal 1 ?goal [] one_goal))) = Some ?new"
    by blast
  with r a q e show ?thesis
    by blast
qed

theorem update_goal_progress_never_retained_counterexample:
  "find (\<lambda>row. gd_id row = 1) (goals one_goal)
     = Some \<lparr>gd_description = str ''Save'', gd_amount = Finite 100, gd_progress = Finite 50,
             gd_id = 1\<rparr>
   \<and> Goal_required \<lparr>g_description = Some (str ''Save''), g_amount = Some NaN,
                      g_progress = Some (Finite 0)\<rparr>
   \<and> update_goal 1 \<lparr>g_description = Some (str ''Save''), g_amount = Some NaN,
                      g_progress = Some (Finite 0)\<rparr> [] one_goal
       = (Inl IntegrityError, one_goal)
   \<and> map gd_progress (goals one_goal) = [Finite 50]"
proof -
  have ne: "str ''Save'' \<noteq> []"
    by (simp add: str_def)
  then show ?thesis
    by (simp add: one_goal_eq update_goal_def select_goal_def update_goal_row_def int64_small
        text_ok_str Goal_required_def Let_def)
qed

section \<open>The rowid order of the tables\<close>

lemma fold_max_ge_init: "a \<le> fold max xs (a::int)"
  by (induction xs arbitrary: a) (auto intro: order_trans [OF max.cobounded2])

lemma fold_max_ge_elem: "x \<in> set xs \<Longrightarrow> x \<le> fold max xs (a::int)"
proof (induction xs arbitrary: a)
  case Nil
  then show ?case by simp
next
  case (Cons y ys)
  show ?case
  proof (cases "x = y")
    case True
    have "y \<le> max y a" by simp
    also have "\<dots> \<le> fold max ys (max y a)" by (rule fold_max_ge_init)
    finally show ?thesis using True by simp
  next
    case False
    with Cons show ?thesis by simp
  qed
qed

lemma lastrowid_fresh: "x \<in> set ids \<Longrightarrow> x < lastrowid ids seq"
  using fold_max_ge_elem [of x ids seq] by (simp add: lastrowid_def)

lemma sorted_wrt_less_snoc:
  "sorted_wrt (<) (ids :: int list) \<Longrightarrow> sorted_wrt (<) (ids @ [lastrowid ids seq])"
  by (simp add: sorted_wrt_append lastrowid_fresh)

lemma map_replace_same_id:
  "gd_id new = i \<Longrightarrow> map (gd_id \<circ> (\<lambda>r. if gd_id r = i then new else r)) rows = map gd_id rows"
  by (induction rows) auto

lemma rowid_ordered_init_db: "rowid_ordered init_db"
  by (simp add: rowid_ordered_def init_db_def)

lemma rowid_ordered_run_operation:
  assumes "rowid_ordered st"
  shows "rowid_ordered (snd (run_operation order_by op user st))"
proof (cases op)
  case (AddExpense expense)
  with assms show ?thesis
    by (auto simp: rowid_ordered_def add_expense_def insert_expense_def Let_def
        sorted_wrt_less_snoc split: option.splits)
next
  case (DeleteExpense i)
  with assms show ?thesis
    by (simp add: rowid_ordered_def delete_expense_def delete_expense_row_def sorted_wrt_map
        sorted_wrt_filter)
next
  case (CreateGoal goal)
  with assms show ?thesis
    by (auto simp: rowid_ordered_def create_goal_def insert_goal_def Let_def
        sorted_wrt_less_snoc split: option.splits)
next
  case (UpdateGoal i goal)
  with assms show ?thesis
    by (auto simp: rowid_ordered_def update_goal_def select_goal_def update_goal_row_def Let_def
        map_replace_same_id split: option.splits if_splits)
next
  case (DeleteGoal i)
  with assms show ?thesis
    by (simp add: rowid_ordered_def delete_goal_def delete_goal_row_def Let_def sorted_wrt_map
        sorted_wrt_filter)
qed (use assms in \<open>simp_all add: protected_route_def get_expenses_def get_expenses_graph_def
      get_goals_def\<close>)

lemma rowid_ordered_handle:
  assumes "rowid_ordered st"
  shows "rowid_ordered (snd (handle verify_id_token order_by req st))"
proof (cases req)
  case (Gated token op)
  with assms rowid_ordered_run_operation [OF assms] show ?thesis
    by (simp split: sum.splits)
qed (use assms in \<open>auto simp: root_def register_user_def login_user_def select_password_def
      insert_user_def rowid_ordered_def split: option.splits sum.splits error.splits if_splits\<close>)

lemma rowid_ordered_reachable:
  "rowid_ordered (foldl (\<lambda>st req. snd (handle verify_id_token order_by req st)) init_db reqs)"
proof (induction reqs rule: rev_induct)
  case Nil
  show ?case by (simp add: rowid_ordered_init_db)
next
  case (snoc req reqs)
  then show ?case by (simp add: rowid_ordered_handle)
qed

section \<open>Listing the expenses\<close>

lemma orders_by_date_scan_order_sorter: "orders_by_date scan_order_sorter"
  by (simp add: orders_by_date_def scan_order_sorter_def)

lemma keeps_scan_order_scan_order_sorter: "keeps_scan_order scan_order_sorter"
  by (simp add: keeps_scan_order_def scan_order_sorter_def sort_key_stable)







section \<open>The expense graph\<close>

lemma exponent_up_step:
  "0 < n \<Longrightarrow> exponent_up n x e = (if 2 \<le> x then exponent_up (n - 1) (x / 2) (e + 1) else e)"
  by (cases n) simp_all

lemma exponent_down_step:
  "0 < n \<Longrightarrow> exponent_down n x e = (if x < 1 then exponent_down (n - 1) (2 * x) (e - 1) else e)"
  by (cases n) simp_all

lemmas float_defs =
  round_double_def binary_exponent_def round_half_even_def exponent_up_step exponent_down_step
  scale_to_ulp_def scale_from_ulp_def Let_def

lemma round_double_examples:
  "round_double 10 = Finite 10"
  "round_double 15 = Finite 15"
  "round_double 2 = Finite 2"
  "round_double 10000000000000000 = Finite 10000000000000000"
  "round_double 10000000000000001 = Finite 10000000000000000"
  by (simp_all add: float_defs)

lemma defaultdict_add_keys:
  "distinct ks \<Longrightarrow>
   defaultdict_add (map (\<lambda>k. (k, g k)) ks) k v
     = (if k \<in> set ks then map (\<lambda>k'. (k', if k' = k then fadd (g k') v else g k')) ks
        else map (\<lambda>k. (k, g k)) ks @ [(k, fadd (Finite 0) v)])"
  by (induction ks) auto

lemma fold_defaultdict_add:
  "fold (\<lambda>p d. defaultdict_add d (fst p) (snd p)) ps []
     = map (\<lambda>k. (k, foldl fadd (Finite 0) (map snd (filter (\<lambda>p. fst p = k) ps))))
         (rev (remdups (rev (map fst ps))))"
proof (induction ps rule: rev_induct)
  case Nil
  show ?case by simp
next
  case (snoc p ps)
  let ?g = "\<lambda>k. foldl fadd (Finite 0) (map snd (filter (\<lambda>p. fst p = k) ps))"
  let ?ks = "rev (remdups (rev (map fst ps)))"
  have d: "distinct ?ks" by simp
  have s: "set ?ks = fst ` set ps" by simp
  have "fold (\<lambda>p d. defaultdict_add d (fst p) (snd p)) (ps @ [p]) []
          = defaultdict_add (map (\<lambda>k. (k, ?g k)) ?ks) (fst p) (snd p)"
    using snoc.IH by simp
  also have "\<dots> = (if fst p \<in> set ?ks
                     then map (\<lambda>k'. (k', if k' = fst p then fadd (?g k') (snd p) else ?g k')) ?ks
                     else map (\<lambda>k. (k, ?g k)) ?ks @ [(fst p, fadd (Finite 0) (snd p))])"
    by (rule defaultdict_add_keys [OF d])
  also have "\<dots> = map (\<lambda>k. (k, foldl fadd (Finite 0)
                                  (map snd (filter (\<lambda>q. fst q = k) (ps @ [p])))))
                      (rev (remdups (rev (map fst (ps @ [p])))))"
  proof (cases "fst p \<in> fst ` set ps")
    case True
    then show ?thesis by (auto simp: s)
  next
    case False
    then have "\<forall>q\<in>set ps. fst q \<noteq> fst p"
      by (metis image_eqI)
    then have "filter (\<lambda>q. fst q = fst p) ps = []"
      by (simp add: filter_empty_conv)
    with False show ?thesis by (auto simp: s)
  qed
  finally show ?case .
qed

lemma sorted_wrt_remdups: "sorted_wrt P xs \<Longrightarrow> sorted_wrt P (remdups xs)"
  by (induction xs) auto

lemma first_seen_sorted:
  fixes ks :: "'a::linorder list"
  assumes "sorted ks"
  shows "rev (remdups (rev ks)) = sorted_list_of_set (set ks)"
proof -
  have "sorted_wrt (\<lambda>x y. y \<le> x) (rev ks)"
    using assms by (simp add: sorted_wrt_rev)
  then have "sorted_wrt (\<lambda>x y. y \<le> x) (remdups (rev ks))"
    by (rule sorted_wrt_remdups)
  then have "sorted (rev (remdups (rev ks)))"
    by (simp add: sorted_wrt_rev)
  moreover have "distinct (rev (remdups (rev ks)))" by simp
  moreover have "set (rev (remdups (rev ks))) = set ks" by simp
  ultimately show ?thesis
    by (metis sorted_list_of_set.idem_if_sorted_distinct)
qed

text \<open>
  Claim C3, amended.  For every engine that meets \<^verbatim>\<open>ORDER BY date ASC\<close>, the graph data
  has one pair for each date text that occurs among the stored expenses, the dates in
  ascending order, and the store is unchanged.  The total of a date is the result of
  adding the amounts of the expenses that have exactly that date to \<^verbatim>\<open>0.0\<close> one after the
  other, in the order the query returns them, each addition rounded to a double; when
  the engine keeps rows of equal date in the order of the table scan, that is the order
  of the table.
\<close>

theorem get_expenses_graph_totals_per_date:
  assumes "orders_by_date order_by"
  shows "get_expenses_graph order_by user st
     = (Inr (GraphData
          (map (\<lambda>d. (d, foldl fadd (Finite 0)
                          (map e_amount (filter (\<lambda>row. e_date row = d) (order_by (expenses st))))))
             (sorted_list_of_set (e_date ` set (expenses st))))),
        st)
     \<and> (keeps_scan_order order_by \<longrightarrow>
          get_expenses_graph order_by user st
            = (Inr (GraphData
                 (map (\<lambda>d. (d, foldl fadd (Finite 0)
                                 (map e_amount (filter (\<lambda>row. e_date row = d) (expenses st)))))
                    (sorted_list_of_set (e_date ` set (expenses st))))),
               st))"
proof -
  let ?rows = "order_by (expenses st)"
  let ?ps = "map (\<lambda>row. (e_date row, e_amount row)) ?rows"
  have keys: "map fst ?ps = map e_date ?rows"
    by simp
  have m: "mset ?rows = mset (expenses st)" and srt: "sorted (map e_date ?rows)"
    using assms by (simp_all add: orders_by_date_def)
  have "set ?rows = set (expenses st)"
    using m by (rule mset_eq_setD)
  with srt have ks:
    "rev (remdups (rev (map fst ?ps))) = sorted_list_of_set (e_date ` set (expenses st))"
    unfolding keys by (simp add: first_seen_sorted)
  have tot: "map snd (filter (\<lambda>p. fst p = d) ?ps)
               = map e_amount (filter (\<lambda>row. e_date row = d) ?rows)" for d
    by (simp add: filter_map comp_def)
  have f: "fold (\<lambda>p d. defaultdict_add d (fst p) (snd p)) ?ps []
          = map (\<lambda>d. (d, foldl fadd (Finite 0)
                            (map e_amount (filter (\<lambda>row. e_date row = d) ?rows))))
              (sorted_list_of_set (e_date ` set (expenses st)))"
    unfolding fold_defaultdict_add ks tot by simp
  then have a: "get_expenses_graph order_by user st
     = (Inr (GraphData
          (map (\<lambda>d. (d, foldl fadd (Finite 0)
                          (map e_amount (filter (\<lambda>row. e_date row = d) ?rows))))
             (sorted_list_of_set (e_date ` set (expenses st))))),
        st)"
    by (simp add: get_expenses_graph_def Let_def)
  have b: "filter (\<lambda>row. e_date row = d) ?rows = filter (\<lambda>row. e_date row = d) (expenses st)"
    if "keeps_scan_order order_by" for d
    using that by (simp add: keeps_scan_order_def)
  from a b show ?thesis
    by simp
qed

theorem get_expenses_graph_totals_per_date_witness:
  "orders_by_date scan_order_sorter
   \<and> get_expenses_graph scan_order_sorter [] graph_expenses
     = (Inr (GraphData [(str ''2024-01-01'', Finite 15), (str ''2024-01-02'', Finite 2)]),
        graph_expenses)
   \<and> map (\<lambda>d. (d, foldl fadd (Finite 0)
                   (map e_amount (filter (\<lambda>row. e_date row = d)
                      (scan_order_sorter (expenses graph_expenses))))))
        (sorted_list_of_set (e_date ` set (expenses graph_expenses)))
     = [(str ''2024-01-01'', Finite 15), (str ''2024-01-02'', Finite 2)]"
proof -
  have lt: "str ''2024-01-01'' < str ''2024-01-02''" "str ''2024-01-01'' \<le> str ''2024-01-02''"
    "str ''2024-01-02'' \<noteq> str ''2024-01-01''" "str ''2024-01-01'' \<noteq> str ''2024-01-02''"
    "\<not> str ''2024-01-02'' \<le> str ''2024-01-01''"
    by (simp_all add: str_def)
  have e: "get_expenses_graph scan_order_sorter [] graph_expenses
     = (Inr (GraphData [(str ''2024-01-01'', Finite 15), (str ''2024-01-02'', Finite 2)]),
        graph_expenses)"
    using lt
    by (simp add: graph_expenses_eq get_expenses_graph_def scan_order_sorter_def round_double_examples)
  from get_expenses_graph_totals_per_date [OF orders_by_date_scan_order_sorter,
      of "[]" graph_expenses] e
  have "map (\<lambda>d. (d, foldl fadd (Finite 0)
                   (map e_amount (filter (\<lambda>row. e_date row = d)
                      (scan_order_sorter (expenses graph_expenses))))))
        (sorted_list_of_set (e_date ` set (expenses graph_expenses)))
     = [(str ''2024-01-01'', Finite 15), (str ''2024-01-02'', Finite 2)]"
    by simp
  with orders_by_date_scan_order_sorter e show ?thesis
    by blast
qed

theorem get_expenses_graph_totals_per_date_counterexample:
  "orders_by_date scan_order_sorter \<and> keeps_scan_order scan_order_sorter
   \<and> map (\<lambda>row. (e_date row, e_amount row)) (expenses rounding_expenses)
       = [(str ''2024-01-01'', Finite 10000000000000000), (str ''2024-01-01'', Finite 1)]
   \<and> get_expenses_graph scan_order_sorter [] rounding_expenses
       = (Inr (GraphData [(str ''2024-01-01'', Finite 10000000000000000)]), rounding_expenses)
   \<and> sum_list (map (\<lambda>row. finite_value (e_amount row)) (expenses rounding_expenses))
       = 10000000000000001"
proof -
  have e: "get_expenses_graph scan_order_sorter [] rounding_expenses
       = (Inr (GraphData [(str ''2024-01-01'', Finite 10000000000000000)]), rounding_expenses)"
    by (simp add: rounding_expenses_eq get_expenses_graph_def scan_order_sorter_def round_double_examples)
  have r: "map (\<lambda>row. (e_date row, e_amount row)) (expenses rounding_expenses)
       = [(str ''2024-01-01'', Finite 10000000000000000), (str ''2024-01-01'', Finite 1)]"
    by (simp add: rounding_expenses_eq)
  have s: "sum_list (map (\<lambda>row. finite_value (e_amount row)) (expenses rounding_expenses))
       = 10000000000000001"
    by (simp add: rounding_expenses_eq)
  from orders_by_date_scan_order_sorter keeps_scan_order_scan_order_sorter r e s show ?thesis
    by blast
qed

end
